theory Spec2Isabelle
  imports Complex_Main
begin

section \<open>Lorentz vectors in (px, py, pz, M) coordinates\<close>

text \<open>
  The analysis task \<^verbatim>\<open>HigherMassResonances\<close> builds its daughters and the mother as
  \<^verbatim>\<open>ROOT::Math::PxPyPzMVector\<close>. The vector stores the three momentum components and the
  mass; the energy is derived. Floating-point numbers are idealised as reals.
\<close>

record PxPyPzMVector =
  Px :: real
  Py :: real
  Pz :: real
  fM :: real

definition P2 :: "PxPyPzMVector \<Rightarrow> real" where
  "P2 v = Px v * Px v + Py v * Py v + Pz v * Pz v"

definition M2 :: "PxPyPzMVector \<Rightarrow> real" where
  "M2 v = (if fM v \<ge> 0 then fM v * fM v else - fM v * fM v)"

definition E2 :: "PxPyPzMVector \<Rightarrow> real" where
  "E2 v = (let e2 = P2 v + M2 v in if e2 > 0 then e2 else 0)"

definition E :: "PxPyPzMVector \<Rightarrow> real" where
  "E v = sqrt (E2 v)"

definition M :: "PxPyPzMVector \<Rightarrow> real" where
  "M v = fM v"

definition Pt :: "PxPyPzMVector \<Rightarrow> real" where
  "Pt v = sqrt (Px v * Px v + Py v * Py v)"

definition Rapidity :: "PxPyPzMVector \<Rightarrow> real" where
  "Rapidity v = (let ee = E v; ppz = Pz v in 0.5 * ln ((ee + ppz) / (ee - ppz)))"

text \<open>
  Setting a (px, py, pz, M) vector from cartesian components and an energy recomputes the
  mass; a space-like input gives a negative mass.
\<close>

definition SetPxPyPzE :: "real \<Rightarrow> real \<Rightarrow> real \<Rightarrow> real \<Rightarrow> PxPyPzMVector" where
  "SetPxPyPzE x y z e =
     (let mm = e * e - x * x - y * y - z * z
      in \<lparr>Px = x, Py = y, Pz = z, fM = (if mm \<ge> 0 then sqrt mm else - sqrt (- mm))\<rparr>)"

text \<open>\<^verbatim>\<open>operator+\<close>: componentwise sum of momenta and of energies.\<close>

definition plus4 :: "PxPyPzMVector \<Rightarrow> PxPyPzMVector \<Rightarrow> PxPyPzMVector" where
  "plus4 v q = SetPxPyPzE (Px v + Px q) (Py v + Py q) (Pz v + Pz q) (E v + E q)"

section \<open>The mother of two daughters\<close>

text \<open>
  \<^verbatim>\<open>processSE\<close> and \<^verbatim>\<open>processMEderived\<close> build both daughters from the candidates'
  momenta under one mass hypothesis and sum them:
  \<^verbatim>\<open>daughter1 = PxPyPzMVector(v1.px(), v1.py(), v1.pz(), MassK0Short); mother = daughter1 + daughter2\<close>.
\<close>

definition daughterVector :: "real \<Rightarrow> real \<times> real \<times> real \<Rightarrow> PxPyPzMVector" where
  "daughterVector mass p = (case p of (x, y, z) \<Rightarrow> \<lparr>Px = x, Py = y, Pz = z, fM = mass\<rparr>)"

definition motherVector :: "real \<Rightarrow> real \<times> real \<times> real \<Rightarrow> real \<times> real \<times> real \<Rightarrow> PxPyPzMVector" where
  "motherVector mass p1 p2 = plus4 (daughterVector mass p1) (daughterVector mass p2)"

section \<open>Three-vectors and boosts\<close>

text \<open>
  \<^verbatim>\<open>ROOT::Math::XYZVector\<close> with the operations \<^verbatim>\<open>fillInvMass\<close> uses. \<^verbatim>\<open>Unit\<close> returns
  the vector itself when its length is zero.
\<close>

record XYZVector =
  fX :: real
  fY :: real
  fZ :: real

definition Vect :: "PxPyPzMVector \<Rightarrow> XYZVector" where
  "Vect v = \<lparr>fX = Px v, fY = Py v, fZ = Pz v\<rparr>"

definition Mag2 :: "XYZVector \<Rightarrow> real" where
  "Mag2 a = fX a * fX a + fY a * fY a + fZ a * fZ a"

definition Dot :: "XYZVector \<Rightarrow> XYZVector \<Rightarrow> real" where
  "Dot a b = fX a * fX b + fY a * fY b + fZ a * fZ b"

definition Cross :: "XYZVector \<Rightarrow> XYZVector \<Rightarrow> XYZVector" where
  "Cross a b = \<lparr>fX = fY a * fZ b - fY b * fZ a,
               fY = fZ a * fX b - fZ b * fX a,
               fZ = fX a * fY b - fX b * fY a\<rparr>"

definition Unit :: "XYZVector \<Rightarrow> XYZVector" where
  "Unit a = (let tot = sqrt (Mag2 a)
             in if tot = 0 then a else \<lparr>fX = fX a / tot, fY = fY a / tot, fZ = fZ a / tot\<rparr>)"

text \<open>
  \<^verbatim>\<open>BoostToCM\<close> is the velocity \<open>- p / E\<close>; a vector with zero energy and zero momentum
  gives the zero velocity. (With zero energy and non-zero momentum ROOT reports an error
  and divides by zero; a mother built of two daughters of positive mass has positive energy.)
\<close>

definition BoostToCM :: "PxPyPzMVector \<Rightarrow> XYZVector" where
  "BoostToCM v =
     (if E v = 0 \<and> P2 v = 0 then \<lparr>fX = 0, fY = 0, fZ = 0\<rparr>
      else \<lparr>fX = - Px v / E v, fY = - Py v / E v, fZ = - Pz v / E v\<rparr>)"

text \<open>
  \<^verbatim>\<open>ROOT::Math::Boost\<close> keeps the ten entries of the symmetric boost matrix.
  \<^verbatim>\<open>SetComponents\<close> rejects a velocity of at least the speed of light and leaves the matrix
  alone; the model starts from the identity. A mother built of two daughters of positive
  mass never has such a velocity.
\<close>

record Boost =
  kXX :: real
  kXY :: real
  kXZ :: real
  kXT :: real
  kYY :: real
  kYZ :: real
  kYT :: real
  kZZ :: real
  kZT :: real
  kTT :: real

definition BoostIdentity :: Boost where
  "BoostIdentity = \<lparr>kXX = 1, kXY = 0, kXZ = 0, kXT = 0, kYY = 1, kYZ = 0, kYT = 0,
                     kZZ = 1, kZT = 0, kTT = 1\<rparr>"

definition SetComponents :: "XYZVector \<Rightarrow> Boost" where
  "SetComponents beta =
     (let bx = fX beta; by = fY beta; bz = fZ beta;
          bp2 = bx * bx + by * by + bz * bz
      in if bp2 \<ge> 1 then BoostIdentity
         else
           (let gamma = 1 / sqrt (1 - bp2);
                bgamma = gamma * gamma / (1 + gamma)
            in \<lparr>kXX = 1 + bgamma * bx * bx, kXY = bgamma * bx * by, kXZ = bgamma * bx * bz,
                kXT = gamma * bx, kYY = 1 + bgamma * by * by, kYZ = bgamma * by * bz,
                kYT = gamma * by, kZZ = 1 + bgamma * bz * bz, kZT = gamma * bz,
                kTT = gamma\<rparr>))"

text \<open>The boost of cartesian components \<open>(x, y, z, t)\<close>: the matrix product.\<close>

definition boostXYZT :: "Boost \<Rightarrow> real \<times> real \<times> real \<times> real \<Rightarrow> real \<times> real \<times> real \<times> real" where
  "boostXYZT b v =
     (case v of (x, y, z, t) \<Rightarrow>
        (kXX b * x + kXY b * y + kXZ b * z + kXT b * t,
         kXY b * x + kYY b * y + kYZ b * z + kYT b * t,
         kXZ b * x + kYZ b * y + kZZ b * z + kZT b * t,
         kXT b * x + kYT b * y + kZT b * z + kTT b * t))"

text \<open>
  A (px, py, pz, M) vector is boosted through its cartesian form and converted back.
\<close>

definition boost4 :: "Boost \<Rightarrow> PxPyPzMVector \<Rightarrow> PxPyPzMVector" where
  "boost4 b v = (case boostXYZT b (Px v, Py v, Pz v, E v) of (x, y, z, t) \<Rightarrow> SetPxPyPzE x y z t)"

definition boostVect :: "Boost \<Rightarrow> real \<times> real \<times> real \<times> real \<Rightarrow> XYZVector" where
  "boostVect b v = (case boostXYZT b v of (x, y, z, t) \<Rightarrow> \<lparr>fX = x, fY = y, fZ = z\<rparr>)"

text \<open>The two beams: \<^verbatim>\<open>Beam1{0, 0, -BeamMomentum, 13600 / 2}\<close> and its mirror image.\<close>

definition BeamMomentum :: real where
  "BeamMomentum = sqrt (13600 * 13600 / 4 - 0.938 * 0.938)"

definition Beam1 :: "real \<times> real \<times> real \<times> real" where
  "Beam1 = (0, 0, - BeamMomentum, 13600 / 2)"

definition Beam2 :: "real \<times> real \<times> real \<times> real" where
  "Beam2 = (0, 0, BeamMomentum, 13600 / 2)"

section \<open>The azimuthal angle\<close>

text \<open>
  \<^verbatim>\<open>TMath::ATan2(y, x)\<close> calls the C library's \<^verbatim>\<open>atan2\<close> unless \<open>x\<close> is zero; the
  library function is written out through \<open>arctan\<close>.
\<close>

definition atan2 :: "real \<Rightarrow> real \<Rightarrow> real" where
  "atan2 y x =
     (if x > 0 then arctan (y / x)
      else if x < 0 then (if y \<ge> 0 then arctan (y / x) + pi else arctan (y / x) - pi)
      else if y > 0 then pi / 2
      else if y < 0 then - pi / 2
      else 0)"

definition ATan2 :: "real \<Rightarrow> real \<Rightarrow> real" where
  "ATan2 y x =
     (if x \<noteq> 0 then atan2 y x
      else if y = 0 then 0
      else if y > 0 then pi / 2
      else - pi / 2)"

text \<open>
  The first part of \<^verbatim>\<open>fillInvMass\<close>: the daughter and the beams are boosted to the
  mother's rest frame, the helicity frame is built from them, and the azimuthal angle of
  the daughter is \<^verbatim>\<open>ATan2(yaxis_HE.Dot(v1_CM), xaxis_HE.Dot(v1_CM))\<close>, to which
  \<open>2 * pi\<close> is added when it is negative.
\<close>

definition angle_phi_raw :: "PxPyPzMVector \<Rightarrow> PxPyPzMVector \<Rightarrow> real" where
  "angle_phi_raw mother daughter1 =
     (let boost = SetComponents (BoostToCM mother);
          Beam1_CM = Unit (boostVect boost Beam1);
          Beam2_CM = Unit (boostVect boost Beam2);
          v1_CM = Unit (Vect (boost4 boost daughter1));
          zaxis_HE = Unit (Vect mother);
          yaxis_HE = Unit (Cross Beam1_CM Beam2_CM);
          xaxis_HE = Unit (Cross yaxis_HE zaxis_HE)
      in ATan2 (Dot yaxis_HE v1_CM) (Dot xaxis_HE v1_CM))"

definition angle_phi :: "PxPyPzMVector \<Rightarrow> PxPyPzMVector \<Rightarrow> real" where
  "angle_phi mother daughter1 =
     (let a = angle_phi_raw mother daughter1
      in if a < 0 then a + 2 * pi else a)"

section \<open>Configuration of the resonance task\<close>

text \<open>
  The configurables the modelled functions read. \<^verbatim>\<open>MassK0Short\<close> and \<^verbatim>\<open>MassLambda0\<close>
  are physics constants of the framework, taken as parameters.
\<close>

record Config =
  requireRCTFlagChecker :: bool
  cDCAv0topv :: bool
  globalTracks :: bool
  cfgHasTPC :: bool
  selectTWOKsOnly :: bool
  timFrameEvsel :: bool
  confV0DCADaughMax :: real
  cMaxV0DCA :: real
  confV0PtMin :: real
  confV0CPAMin :: real
  confV0TranRadV0Min :: real
  confV0TranRadV0Max :: real
  cMaxV0LifeTime :: real
  cSigmaMassKs0 :: real
  cWidthKs0 :: real
  confDaughEta :: real
  confDaughTPCnclsMin :: real
  confDaughPIDCuts :: real
  confKsrapidity :: real
  applyAngSepCut :: bool
  angSepCut :: real
  cfgMultFOTM :: bool
  activateTHnSparseCosThStarHelicity :: bool
  activateTHnSparseCosThStarProduction :: bool
  activateTHnSparseCosThStarBeam :: bool
  activateTHnSparseCosThStarRandom :: bool
  cRotations :: int
  applyCompetingcut :: bool
  competingcascrejlambda :: real
  tpcCrossedrows :: int
  tpcCrossedrowsOverfcls :: real
  rotationalCut :: int
  MassK0Short :: real
  MassLambda0 :: real

text \<open>The default values of the configurables, as the source declares them.\<close>

definition defaultConfig :: Config where
  "defaultConfig =
     \<lparr>requireRCTFlagChecker = True, cDCAv0topv = False, globalTracks = False,
      cfgHasTPC = False, selectTWOKsOnly = True, timFrameEvsel = True,
      confV0DCADaughMax = 1.0, cMaxV0DCA = 1, confV0PtMin = 0, confV0CPAMin = 0.97,
      confV0TranRadV0Min = 0.5, confV0TranRadV0Max = 200, cMaxV0LifeTime = 15,
      cSigmaMassKs0 = 4, cWidthKs0 = 0.005, confDaughEta = 0.8, confDaughTPCnclsMin = 70,
      confDaughPIDCuts = 5, confKsrapidity = 0.5, applyAngSepCut = False, angSepCut = 0.01,
      cfgMultFOTM = True,
      activateTHnSparseCosThStarHelicity = False,
      activateTHnSparseCosThStarProduction = False,
      activateTHnSparseCosThStarBeam = True,
      activateTHnSparseCosThStarRandom = False,
      cRotations = 3, applyCompetingcut = False, competingcascrejlambda = 0.005,
      tpcCrossedrows = 70, tpcCrossedrowsOverfcls = 0.8, rotationalCut = 10,
      MassK0Short = 0.497611, MassLambda0 = 1.115683\<rparr>"

section \<open>Start-up check\<close>

text \<open>
  \<^verbatim>\<open>init\<close> sums the four switches of the output sparses and logs a fatal error when the
  sum is zero; otherwise it logs one line for each active switch. A fatal log ends the
  program. The registration of the histograms that follows is left out.
\<close>

datatype error = Fatal string | CutsRowOutOfRange

definition init :: "Config \<Rightarrow> error + string list" where
  "init cfg =
     (let sparses = [of_bool (activateTHnSparseCosThStarHelicity cfg),
                     of_bool (activateTHnSparseCosThStarProduction cfg),
                     of_bool (activateTHnSparseCosThStarBeam cfg),
                     of_bool (activateTHnSparseCosThStarRandom cfg)] :: int list
      in if sum_list sparses = 0 then Inl (Fatal ''No output THnSparses enabled'')
         else Inr
           ((if activateTHnSparseCosThStarHelicity cfg
             then [''THnSparse with cosThStar w.r.t. helicity axis active.''] else []) @
            (if activateTHnSparseCosThStarProduction cfg
             then [''THnSparse with cosThStar w.r.t. production axis active.''] else []) @
            (if activateTHnSparseCosThStarBeam cfg
             then [''THnSparse with cosThStar w.r.t. beam axis active. (Gottified jackson frame)''] else []) @
            (if activateTHnSparseCosThStarRandom cfg
             then [''THnSparse with cosThStar w.r.t. random axis active.''] else [])))"

section \<open>Filling the invariant-mass sparses\<close>

text \<open>
  \<^verbatim>\<open>TRandom::Uniform(x1, x2)\<close> is \<open>x1 + (x2 - x1) * u\<close> for a draw \<open>u\<close> of the generator in
  the open unit interval; the draws are inputs of the model. The angle of a rotation is
  drawn between \<open>pi - pi / rotationalCut\<close> and \<open>pi + pi / rotationalCut\<close>.
\<close>

definition Uniform :: "real \<Rightarrow> real \<Rightarrow> real \<Rightarrow> real" where
  "Uniform x1 x2 u = x1 + (x2 - x1) * u"

definition theta2 :: "Config \<Rightarrow> real \<Rightarrow> real" where
  "theta2 cfg u = Uniform (pi - pi / real_of_int (rotationalCut cfg))
                          (pi + pi / real_of_int (rotationalCut cfg)) u"

datatype Hist = h3glueInvMassDS | h3glueInvMassME | h3glueInvMassRot

datatype Fill = Fill (hist: Hist) (fillMult: real) (fillPt: real) (fillMass: real)
  (fillCos: real) (fillPhi: real)

text \<open>The rotated daughter of the helicity branch and the rotated mother of the others.\<close>

definition rotated :: "PxPyPzMVector \<Rightarrow> real \<Rightarrow> PxPyPzMVector" where
  "rotated v th = \<lparr>Px = Px v * cos th - Py v * sin th, Py = Px v * sin th + Py v * cos th,
                   Pz = Pz v, fM = M v\<rparr>"

definition cosThetaStarHelicity :: "PxPyPzMVector \<Rightarrow> PxPyPzMVector \<Rightarrow> real" where
  "cosThetaStarHelicity mother fourVecDauCM =
     Dot (Vect mother) (Vect fourVecDauCM)
       / (sqrt (Mag2 (Vect fourVecDauCM)) * sqrt (Mag2 (Vect mother)))"

definition cosThetaStarProduction :: "PxPyPzMVector \<Rightarrow> PxPyPzMVector \<Rightarrow> real" where
  "cosThetaStarProduction mother fourVecDauCM =
     (let normalVec = \<lparr>fX = Py mother, fY = - Px mother, fZ = 0\<rparr>
      in Dot normalVec (Vect fourVecDauCM)
           / (sqrt (Mag2 (Vect fourVecDauCM)) * sqrt (Mag2 normalVec)))"

definition cosThetaStarBeam :: "PxPyPzMVector \<Rightarrow> real" where
  "cosThetaStarBeam fourVecDauCM =
     (let beamVec = \<lparr>fX = 0, fY = 0, fZ = 1\<rparr>
      in Dot beamVec (Vect fourVecDauCM) / sqrt (Mag2 (Vect fourVecDauCM)))"

definition cosThetaStarRandom :: "real \<times> real \<Rightarrow> PxPyPzMVector \<Rightarrow> real" where
  "cosThetaStarRandom g fourVecDauCM =
     (let phiRandom = Uniform 0 (2 * pi) (fst g);
          thetaRandom = Uniform 0 pi (snd g);
          randomVec = \<lparr>fX = sin thetaRandom * cos phiRandom,
                       fY = sin thetaRandom * sin phiRandom, fZ = cos thetaRandom\<rparr>
      in Dot randomVec (Vect fourVecDauCM) / sqrt (Mag2 (Vect fourVecDauCM)))"

text \<open>
  One turn of the rotation loop. In the helicity branch the first daughter is rotated,
  the mother is rebuilt and the entry is filled when the rapidity of the rebuilt mother is
  below 0.5. In the other branches the mother itself is rotated and the entry is filled
  when the absolute rapidity of the rotated mother is below 0.5.
\<close>

definition rotationHelicity ::
  "Config \<Rightarrow> real \<Rightarrow> PxPyPzMVector \<Rightarrow> PxPyPzMVector \<Rightarrow> real \<Rightarrow> real \<Rightarrow> Fill list" where
  "rotationHelicity cfg multiplicity daughter1 daughter2 phi u =
     (let daughterRot = rotated daughter1 (theta2 cfg u);
          motherRot = plus4 daughterRot daughter2;
          boost2 = SetComponents (BoostToCM motherRot);
          daughterRotCM = boost4 boost2 daughterRot;
          cosThetaStarHelicityRot = cosThetaStarHelicity motherRot daughterRotCM
      in if Rapidity motherRot < 0.5
         then [Fill h3glueInvMassRot multiplicity (Pt motherRot) (M motherRot)
                 cosThetaStarHelicityRot phi]
         else [])"

definition rotationMother ::
  "Config \<Rightarrow> real \<Rightarrow> PxPyPzMVector \<Rightarrow> real \<Rightarrow> real \<Rightarrow> real \<Rightarrow> Fill list" where
  "rotationMother cfg multiplicity mother cosThetaStar phi u =
     (let motherRot = rotated mother (theta2 cfg u)
      in if \<bar>Rapidity motherRot\<bar> < 0.5
         then [Fill h3glueInvMassRot multiplicity (Pt motherRot) (M motherRot) cosThetaStar phi]
         else [])"

text \<open>
  The branch shared by the production-plane, beam and random axes: the same-event entry,
  then \<^verbatim>\<open>cRotations\<close> rotations; for a mixed pair the mixed-event entry only.
\<close>

definition fillWithCos ::
  "Config \<Rightarrow> (nat \<Rightarrow> real) \<Rightarrow> PxPyPzMVector \<Rightarrow> real \<Rightarrow> real \<Rightarrow> real \<Rightarrow> bool \<Rightarrow> Fill list" where
  "fillWithCos cfg rn mother multiplicity cosThetaStar phi isMix =
     (if \<not> isMix then
        (if \<bar>Rapidity mother\<bar> < 0.5
         then [Fill h3glueInvMassDS multiplicity (Pt mother) (M mother) cosThetaStar phi]
         else []) @
        concat (map (\<lambda>i. rotationMother cfg multiplicity mother cosThetaStar phi (rn i))
                  [0..<nat (cRotations cfg)])
      else
        (if \<bar>Rapidity mother\<bar> < 0.5
         then [Fill h3glueInvMassME multiplicity (Pt mother) (M mother) cosThetaStar phi]
         else []))"

text \<open>
  \<^verbatim>\<open>fillInvMass\<close>. \<open>rn\<close> gives the draws of the task's generator, in the order of the
  rotation loop, and \<open>g\<close> the two draws of the global generator that the random axis uses.
  The result is the list of the entries filled, in order.
\<close>

definition fillInvMass ::
  "Config \<Rightarrow> (nat \<Rightarrow> real) \<Rightarrow> real \<times> real \<Rightarrow> PxPyPzMVector \<Rightarrow> real \<Rightarrow> PxPyPzMVector
     \<Rightarrow> PxPyPzMVector \<Rightarrow> bool \<Rightarrow> Fill list" where
  "fillInvMass cfg rn g mother multiplicity daughter1 daughter2 isMix =
     (let boost = SetComponents (BoostToCM mother);
          fourVecDauCM = boost4 boost daughter1;
          phi = angle_phi mother daughter1
      in if activateTHnSparseCosThStarHelicity cfg then
           (let cosThetaStar = cosThetaStarHelicity mother fourVecDauCM
            in if \<not> isMix then
                 (if \<bar>Rapidity mother\<bar> < 0.5
                  then [Fill h3glueInvMassDS multiplicity (Pt mother) (M mother) cosThetaStar phi]
                  else []) @
                 concat (map (\<lambda>i. rotationHelicity cfg multiplicity daughter1 daughter2 phi (rn i))
                           [0..<nat (cRotations cfg)])
               else
                 (if \<bar>Rapidity mother\<bar> < 0.5
                  then [Fill h3glueInvMassME multiplicity (Pt mother) (M mother) cosThetaStar phi]
                  else []))
         else if activateTHnSparseCosThStarProduction cfg then
           fillWithCos cfg rn mother multiplicity
             (cosThetaStarProduction mother fourVecDauCM) phi isMix
         else if activateTHnSparseCosThStarBeam cfg then
           fillWithCos cfg rn mother multiplicity (cosThetaStarBeam fourVecDauCM) phi isMix
         else if activateTHnSparseCosThStarRandom cfg then
           fillWithCos cfg rn mother multiplicity (cosThetaStarRandom g fourVecDauCM) phi isMix
         else [])"

section \<open>Collisions, V0 candidates and tracks\<close>

text \<open>
  The columns of the tables that the selections read. A V0 refers to its positive and its
  negative daughter by their row index in the track table, and the source compares the
  \<^verbatim>\<open>globalIndex\<close> of the tracks it dereferences; the track table is a function from row
  index to row, so that two references to one row see one track. \<open>rctChecker\<close> stands for
  the verdict of the run-condition-table checker on the collision.
\<close>

record Collision =
  collisionIndex :: int
  posX :: real
  posY :: real
  posZ :: real
  centFT0M :: real
  centFT0C :: real
  kNoTimeFrameBorder :: bool
  kNoITSROFrameBorder :: bool
  sel8 :: bool
  rctChecker :: bool

record V0 =
  globalIndex :: int
  straCollisionId :: int
  posTrackId :: int
  negTrackId :: int
  px :: real
  py :: real
  pz :: real
  pt :: real
  eta :: real
  phi :: real
  v0radius :: real
  dcaV0daughters :: real
  v0cosPA :: real
  dcav0topv :: real
  distovertotmom :: "real \<Rightarrow> real \<Rightarrow> real \<Rightarrow> real"
  yK0Short :: real
  mK0Short :: real
  mLambda :: real
  mAntiLambda :: real

record Track =
  sign :: int
  trackEta :: real
  tpcNSigmaPi :: real
  hasTPC :: bool
  isGlobalTrack :: bool
  tpcNClsFound :: int
  tpcNClsCrossedRows :: int
  tpcCrossedRowsOverFindableCls :: real

section \<open>Selections\<close>

text \<open>
  The selections also fill quality-assurance and cut-flow histograms, which do not
  influence their verdicts and are left out.
\<close>

definition eventselection :: "Config \<Rightarrow> Collision \<Rightarrow> bool" where
  "eventselection cfg collision =
     (if timFrameEvsel cfg \<and> (\<not> kNoTimeFrameBorder collision \<or> \<not> kNoITSROFrameBorder collision)
      then False
      else if \<not> sel8 collision then False
      else True)"

definition selectionV0 :: "Config \<Rightarrow> Collision \<Rightarrow> V0 \<Rightarrow> bool" where
  "selectionV0 cfg collision candidate =
     (let pT = pt candidate;
          tranRad = v0radius candidate;
          dcaDaughv0 = dcaV0daughters candidate;
          cpav0 = v0cosPA candidate;
          ctauK0s = distovertotmom candidate (posX collision) (posY collision) (posZ collision)
                      * MassK0Short cfg;
          lowmasscutks0 = 0.497 - cWidthKs0 cfg * cSigmaMassKs0 cfg;
          highmasscutks0 = 0.497 + cWidthKs0 cfg * cSigmaMassKs0 cfg
      in if cDCAv0topv cfg \<and> \<bar>dcav0topv candidate\<bar> > cMaxV0DCA cfg then False
         else if \<bar>yK0Short candidate\<bar> \<ge> confKsrapidity cfg then False
         else if pT < confV0PtMin cfg then False
         else if dcaDaughv0 > confV0DCADaughMax cfg then False
         else if cpav0 < confV0CPAMin cfg then False
         else if tranRad < confV0TranRadV0Min cfg then False
         else if tranRad > confV0TranRadV0Max cfg then False
         else if \<bar>ctauK0s\<bar> > cMaxV0LifeTime cfg then False
         else if applyCompetingcut cfg \<and>
                 (\<bar>mLambda candidate - MassLambda0 cfg\<bar> \<le> competingcascrejlambda cfg \<or>
                  \<bar>mAntiLambda candidate - MassLambda0 cfg\<bar> \<le> competingcascrejlambda cfg)
           then False
         else if mK0Short candidate < lowmasscutks0 \<or> mK0Short candidate > highmasscutks0
           then False
         else True)"

definition isSelectedV0Daughter :: "Config \<Rightarrow> Track \<Rightarrow> real \<Rightarrow> real \<Rightarrow> bool" where
  "isSelectedV0Daughter cfg track charge nsigmaV0Daughter =
     (if cfgHasTPC cfg \<and> \<not> hasTPC track then False
      else if (if \<not> globalTracks cfg
               then tpcNClsCrossedRows track < tpcCrossedrows cfg \<or>
                    tpcCrossedRowsOverFindableCls track < tpcCrossedrowsOverfcls cfg \<or>
                    real_of_int (tpcNClsFound track) < confDaughTPCnclsMin cfg
               else \<not> isGlobalTrack track)
        then False
      else if charge < 0 \<and> sign track > 0 then False
      else if charge > 0 \<and> sign track < 0 then False
      else if \<bar>trackEta track\<bar> > confDaughEta cfg then False
      else if \<bar>nsigmaV0Daughter\<bar> > confDaughPIDCuts cfg then False
      else True)"

definition applyAngSep :: "Config \<Rightarrow> V0 \<Rightarrow> V0 \<Rightarrow> bool" where
  "applyAngSep cfg candidate1 candidate2 =
     (let eta1 = eta candidate1; eta2 = eta candidate2;
          phi1 = phi candidate1; phi2 = phi candidate2;
          angle = sqrt ((eta1 - eta2)\<^sup>2 + (phi1 - phi2)\<^sup>2)
      in if applyAngSepCut cfg \<and> angle > angSepCut cfg then False else True)"

section \<open>Same-event pairing\<close>

text \<open>
  The state of the loop of \<^verbatim>\<open>processSE\<close>. The members \<^verbatim>\<open>daughter1\<close>, \<^verbatim>\<open>daughter2\<close>
  and \<^verbatim>\<open>mother\<close> are overwritten together from the pair that passed all checks; the
  model keeps that pair (from which the three vectors are computed). \<open>filled\<close> lists the
  pairs for which \<^verbatim>\<open>fillInvMass\<close> was called.
\<close>

text \<open>
  \<^verbatim>\<open>v0indexes\<close> is a \<^verbatim>\<open>std::vector<int>\<close>, while \<^verbatim>\<open>globalIndex\<close> is a 64-bit integer:
  \<^verbatim>\<open>push_back\<close> stores the index narrowed to 32 bits (two's complement wrap-around), and
  \<^verbatim>\<open>std::find\<close> compares the stored values with the full index.
\<close>

definition narrow32 :: "int \<Rightarrow> int" where
  "narrow32 i = (i + 2 ^ 31) mod 2 ^ 32 - 2 ^ 31"

record SEState =
  v0indexes :: "int list"
  allConditionsMet :: bool
  lastPair :: "(V0 \<times> V0) option"
  filled :: "(V0 \<times> V0) list"

definition initialSEState :: SEState where
  "initialSEState = \<lparr>v0indexes = [], allConditionsMet = False, lastPair = None, filled = []\<rparr>"

text \<open>
  The body of the loop over all ordered pairs of the table; every \<^verbatim>\<open>continue\<close>
  returns the state as it is at that point. (The test \<^verbatim>\<open>v1.size() == 0\<close> on the size of
  the table never holds inside the loop.)
\<close>

definition seStep :: "Config \<Rightarrow> Collision \<Rightarrow> (int \<Rightarrow> Track) \<Rightarrow> SEState \<Rightarrow> V0 \<times> V0 \<Rightarrow> SEState" where
  "seStep cfg collision tracks st p =
     (case p of (v1, v2) \<Rightarrow>
      if \<not> selectionV0 cfg collision v1 then st
      else if \<not> selectionV0 cfg collision v2 then st
      else
        (let postrack1 = tracks (posTrackId v1);
             negtrack1 = tracks (negTrackId v1);
             postrack2 = tracks (posTrackId v2);
             negtrack2 = tracks (negTrackId v2);
             nTPCSigmaPos1 = tpcNSigmaPi postrack1;
             nTPCSigmaNeg1 = tpcNSigmaPi negtrack1;
             nTPCSigmaPos2 = tpcNSigmaPi postrack2;
             nTPCSigmaNeg2 = tpcNSigmaPi negtrack2
         in if \<not> (isSelectedV0Daughter cfg negtrack1 (-1) nTPCSigmaNeg1 \<and>
                   isSelectedV0Daughter cfg postrack1 1 nTPCSigmaPos1) then st
            else if \<not> (isSelectedV0Daughter cfg postrack2 1 nTPCSigmaPos2 \<and>
                        isSelectedV0Daughter cfg negtrack2 (-1) nTPCSigmaNeg2) then st
            else
              (let st1 = (if globalIndex v1 \<notin> set (v0indexes st)
                          then st\<lparr>v0indexes := v0indexes st @ [narrow32 (globalIndex v1)]\<rparr>
                          else st)
               in if globalIndex v2 \<le> globalIndex v1 then st1
                  else if posTrackId v1 = posTrackId v2 then st1
                  else if negTrackId v1 = negTrackId v2 then st1
                  else if \<not> applyAngSep cfg v1 v2 then st1
                  else
                    (let st2 = st1\<lparr>allConditionsMet := True, lastPair := Some (v1, v2)\<rparr>
                     in if \<not> selectTWOKsOnly cfg
                        then st2\<lparr>filled := filled st2 @ [(v1, v2)]\<rparr>
                        else st2))))"

text \<open>
  \<^verbatim>\<open>processSE\<close>: the event selection, the loop over
  \<^verbatim>\<open>combinations(CombinationsFullIndexPolicy(V0s, V0s))\<close>, that is all ordered pairs of
  rows in row order, and the call after the loop for an event with two selected
  candidates. The result lists the pairs handed to \<^verbatim>\<open>fillInvMass\<close> (with
  \<^verbatim>\<open>isMix = false\<close>), in order.
\<close>

definition processSE :: "Config \<Rightarrow> Collision \<Rightarrow> (int \<Rightarrow> Track) \<Rightarrow> V0 list \<Rightarrow> (V0 \<times> V0) list" where
  "processSE cfg collision tracks V0s =
     (if \<not> eventselection cfg collision then []
      else if requireRCTFlagChecker cfg \<and> \<not> rctChecker collision then []
      else
        (let st = foldl (seStep cfg collision tracks) initialSEState (List.product V0s V0s);
             sizeofv0indexes = length (v0indexes st)
         in if selectTWOKsOnly cfg \<and> sizeofv0indexes = 2 \<and> allConditionsMet st
            then (case lastPair st of Some p \<Rightarrow> filled st @ [p] | None \<Rightarrow> filled st)
            else filled st))"

section \<open>Mixed-event pairing\<close>

text \<open>
  The inner loop of \<^verbatim>\<open>processMEderived\<close> over all pairs of a candidate of the first
  collision with a candidate of the second; the result lists the pairs handed to
  \<^verbatim>\<open>fillInvMass\<close> (with \<^verbatim>\<open>isMix = true\<close>).
\<close>

fun mePairs :: "Config \<Rightarrow> (int \<Rightarrow> Track) \<Rightarrow> Collision \<Rightarrow> Collision \<Rightarrow> (V0 \<times> V0) list
    \<Rightarrow> (V0 \<times> V0) list" where
  "mePairs cfg tracks c1 c2 [] = []"
| "mePairs cfg tracks c1 c2 ((t1, t2) # rest) =
     (if \<not> selectionV0 cfg c1 t1 then mePairs cfg tracks c1 c2 rest
      else if \<not> selectionV0 cfg c2 t2 then mePairs cfg tracks c1 c2 rest
      else
        (let postrack1 = tracks (posTrackId t1);
             negtrack1 = tracks (negTrackId t1);
             postrack2 = tracks (posTrackId t2);
             negtrack2 = tracks (negTrackId t2)
         in if posTrackId t1 = posTrackId t2 then mePairs cfg tracks c1 c2 rest
            else if negTrackId t1 = negTrackId t2 then mePairs cfg tracks c1 c2 rest
            else if \<not> isSelectedV0Daughter cfg postrack1 1 (tpcNSigmaPi postrack1)
              then mePairs cfg tracks c1 c2 rest
            else if \<not> isSelectedV0Daughter cfg postrack2 1 (tpcNSigmaPi postrack2)
              then mePairs cfg tracks c1 c2 rest
            else if \<not> isSelectedV0Daughter cfg negtrack1 (-1) (tpcNSigmaPi negtrack1)
              then mePairs cfg tracks c1 c2 rest
            else if \<not> isSelectedV0Daughter cfg negtrack2 (-1) (tpcNSigmaPi negtrack2)
              then mePairs cfg tracks c1 c2 rest
            else (t1, t2) # mePairs cfg tracks c1 c2 rest))"

text \<open>
  The outer loop runs over the pairs of collisions that the framework's
  \<^verbatim>\<open>selfCombinations\<close> delivers (an input of the model). A pair of which one collision
  fails the event selection is skipped; a collision that fails the run-condition check
  ends the whole function. \<^verbatim>\<open>sliceBy\<close> selects the candidates of a collision.
\<close>

definition sliceBy :: "V0 list \<Rightarrow> int \<Rightarrow> V0 list" where
  "sliceBy v0s i = filter (\<lambda>v. straCollisionId v = i) v0s"

fun processMEderived :: "Config \<Rightarrow> (int \<Rightarrow> Track) \<Rightarrow> V0 list \<Rightarrow> (Collision \<times> Collision) list
    \<Rightarrow> (V0 \<times> V0) list" where
  "processMEderived cfg tracks v0s [] = []"
| "processMEderived cfg tracks v0s ((c1, c2) # rest) =
     (if \<not> eventselection cfg c1 \<or> \<not> eventselection cfg c2
      then processMEderived cfg tracks v0s rest
      else if requireRCTFlagChecker cfg \<and> \<not> rctChecker c1 then []
      else if requireRCTFlagChecker cfg \<and> \<not> rctChecker c2 then []
      else
        (let groupV01 = sliceBy v0s (collisionIndex c1);
             groupV02 = sliceBy v0s (collisionIndex c2)
         in mePairs cfg tracks c1 c2 (List.product groupV01 groupV02)
              @ processMEderived cfg tracks v0s rest))"

text \<open>Two candidates share a daughter track when a track index of one is one of the other.\<close>

definition shareTrack :: "V0 \<Rightarrow> V0 \<Rightarrow> bool" where
  "shareTrack v1 v2 =
     (posTrackId v1 = posTrackId v2 \<or> posTrackId v1 = negTrackId v2 \<or>
      negTrackId v1 = posTrackId v2 \<or> negTrackId v1 = negTrackId v2)"

section \<open>The D0 selector of the ALICE 3 barrel\<close>

text \<open>
  The candidate's columns and the helper's values for the candidate
  (\<^verbatim>\<open>hfHelper.invMassD0ToPiK(candidate)\<close> and the like) are fields of the candidate.
  \<^verbatim>\<open>cuts\<close> holds one row of labelled cut values for each transverse-momentum bin; reading
  a row that does not exist is an error of the model. \<^verbatim>\<open>MassD0\<close> is a physics constant
  of the framework, taken as a parameter.
\<close>

record D0Candidate =
  d0pt :: real
  d0p :: real
  impactParameterProduct :: real
  cpa :: real
  cpaXY :: real
  decayLength :: real
  decayLengthXY :: real
  decayLengthNormalised :: real
  decayLengthXYNormalised :: real
  impactParameterNormalised0 :: real
  impactParameterNormalised1 :: real
  invMassD0ToPiK :: real
  invMassD0barToKPi :: real
  cosThetaStarD0 :: real
  cosThetaStarD0bar :: real

record Prong =
  prongSign :: int
  prongPt :: real
  dcaXY :: real

record D0Config =
  ptCandMin :: real
  ptCandMax :: real
  binsPt :: "real list"
  cuts :: "(string \<Rightarrow> real) list"
  MassD0 :: real

definition cutsRow :: "D0Config \<Rightarrow> int \<Rightarrow> error + (string \<Rightarrow> real)" where
  "cutsRow cfg pTBin =
     (if 0 \<le> pTBin \<and> pTBin < int (length (cuts cfg)) then Inr (cuts cfg ! nat pTBin)
      else Inl CutsRowOutOfRange)"

text \<open>
  Modelled from the spec: \<^verbatim>\<open>findBin\<close>, which the selector calls and whose definition is
  not among the sources. The spec describes a monotonic bin-edge lookup that returns the
  no-bin sentinel when the value falls outside the configured edges; the sentinel is -1,
  the value the selector tests for. Inside the edges the bin is the number of edges that
  do not exceed the value, less one.
\<close>

definition findBin :: "real list \<Rightarrow> real \<Rightarrow> int" where
  "findBin bins v =
     (if bins = [] then -1
      else if v < hd bins then -1
      else if v \<ge> last bins then -1
      else int (length (takeWhile (\<lambda>edge. edge \<le> v) bins)) - 1)"

definition selectionTopol :: "D0Config \<Rightarrow> D0Candidate \<Rightarrow> error + bool" where
  "selectionTopol cfg candidate =
     (let candpT = d0pt candidate;
          pTBin = findBin (binsPt cfg) candpT
      in if pTBin = -1 then Inr False
         else if candpT < ptCandMin cfg \<or> candpT \<ge> ptCandMax cfg then Inr False
         else
           (case cutsRow cfg pTBin of
              Inl e \<Rightarrow> Inl e
            | Inr row \<Rightarrow>
                Inr
                 (if impactParameterProduct candidate > row ''d0d0'' then False
                  else if cpa candidate < row ''cos pointing angle'' then False
                  else if cpaXY candidate < row ''cos pointing angle xy'' then False
                  else if decayLengthXYNormalised candidate < row ''normalized decay length XY''
                    then False
                  else if \<bar>impactParameterNormalised0 candidate\<bar> < 0.5 \<or>
                          \<bar>impactParameterNormalised1 candidate\<bar> < 0.5 then False
                  else
                    (let decayLengthCut =
                           min (d0p candidate * 0.0066 + 0.01) (row ''minimum decay length'')
                     in if decayLength candidate * decayLength candidate
                             < decayLengthCut * decayLengthCut then False
                        else if decayLength candidate > row ''decay length'' then False
                        else if decayLengthXY candidate > row ''decay length XY'' then False
                        else True))))"

definition selectionTopolConjugate :: "D0Config \<Rightarrow> D0Candidate \<Rightarrow> Prong \<Rightarrow> Prong \<Rightarrow> error + bool" where
  "selectionTopolConjugate cfg candidate trackPion trackKaon =
     (let candpT = d0pt candidate;
          pTBin = findBin (binsPt cfg) candpT
      in if pTBin = -1 then Inr False
         else
           (case cutsRow cfg pTBin of
              Inl e \<Rightarrow> Inl e
            | Inr row \<Rightarrow>
                Inr
                 (if (if prongSign trackPion > 0
                      then \<bar>invMassD0ToPiK candidate - MassD0 cfg\<bar> > row ''m''
                      else \<bar>invMassD0barToKPi candidate - MassD0 cfg\<bar> > row ''m'')
                    then False
                  else if prongPt trackPion < row ''pT Pi'' \<or> prongPt trackKaon < row ''pT K''
                    then False
                  else if \<bar>dcaXY trackPion\<bar> > row ''d0pi'' \<or> \<bar>dcaXY trackKaon\<bar> > row ''d0K''
                    then False
                  else if (if prongSign trackPion > 0
                           then \<bar>cosThetaStarD0 candidate\<bar> > row ''cos theta*''
                           else \<bar>cosThetaStarD0bar candidate\<bar> > row ''cos theta*'')
                    then False
                  else True)))"

section \<open>Accepted candidates and accepted pairs\<close>

text \<open>
  Names for the conjunctions of checks that the pairing loops apply: a candidate is selected
  when it passes \<^verbatim>\<open>selectionV0\<close> and both its daughters pass
  \<^verbatim>\<open>isSelectedV0Daughter\<close>; a same-event pair is accepted when both candidates are
  selected, the second global index exceeds the first, the positive daughters differ, the
  negative daughters differ and the angular-separation cut passes; a mixed-event pair is
  accepted when both candidates are selected and the positive and the negative daughters
  differ.
\<close>

definition candidateSelected :: "Config \<Rightarrow> Collision \<Rightarrow> (int \<Rightarrow> Track) \<Rightarrow> V0 \<Rightarrow> bool" where
  "candidateSelected cfg collision tracks v =
     (selectionV0 cfg collision v \<and>
      isSelectedV0Daughter cfg (tracks (posTrackId v)) 1 (tpcNSigmaPi (tracks (posTrackId v))) \<and>
      isSelectedV0Daughter cfg (tracks (negTrackId v)) (-1) (tpcNSigmaPi (tracks (negTrackId v))))"

definition sePairAccepted :: "Config \<Rightarrow> Collision \<Rightarrow> (int \<Rightarrow> Track) \<Rightarrow> V0 \<times> V0 \<Rightarrow> bool" where
  "sePairAccepted cfg collision tracks p =
     (candidateSelected cfg collision tracks (fst p) \<and>
      candidateSelected cfg collision tracks (snd p) \<and>
      globalIndex (fst p) < globalIndex (snd p) \<and>
      posTrackId (fst p) \<noteq> posTrackId (snd p) \<and>
      negTrackId (fst p) \<noteq> negTrackId (snd p) \<and>
      applyAngSep cfg (fst p) (snd p))"

definition mePairAccepted :: "Config \<Rightarrow> (int \<Rightarrow> Track) \<Rightarrow> Collision \<Rightarrow> Collision \<Rightarrow> V0 \<times> V0 \<Rightarrow> bool" where
  "mePairAccepted cfg tracks c1 c2 p =
     (candidateSelected cfg c1 tracks (fst p) \<and>
      candidateSelected cfg c2 tracks (snd p) \<and>
      posTrackId (fst p) \<noteq> posTrackId (snd p) \<and>
      negTrackId (fst p) \<noteq> negTrackId (snd p))"

text \<open>
  The bookkeeping of the loop: \<open>pushIndex\<close> is the guarded \<^verbatim>\<open>push_back\<close> of
  \<^verbatim>\<open>v0indexes\<close>, applied for every pair of which both candidates are selected.
\<close>

definition pushIndex :: "int list \<Rightarrow> int \<Rightarrow> int list" where
  "pushIndex xs i = (if i \<notin> set xs then xs @ [narrow32 i] else xs)"

definition bothSelected :: "Config \<Rightarrow> Collision \<Rightarrow> (int \<Rightarrow> Track) \<Rightarrow> V0 \<times> V0 \<Rightarrow> bool" where
  "bothSelected cfg collision tracks p =
     (candidateSelected cfg collision tracks (fst p) \<and> candidateSelected cfg collision tracks (snd p))"

section \<open>The entries recorded for an event\<close>

text \<open>
  \<^verbatim>\<open>processSE\<close> sets \<^verbatim>\<open>multiplicity\<close> from the collision, builds the daughters of a
  pair under the kaon mass and their sum, and calls \<^verbatim>\<open>fillInvMass\<close> for the pairs it hands
  on. The entries of the event are those of the calls, in order; the call number \<open>k\<close>
  takes the next \<^verbatim>\<open>cRotations\<close> draws of the task's generator and the pair number \<open>k\<close>
  of draws of the global generator.
\<close>

definition multiplicityOf :: "Config \<Rightarrow> Collision \<Rightarrow> real" where
  "multiplicityOf cfg collision =
     (if cfgMultFOTM cfg then centFT0M collision else centFT0C collision)"

definition daughterOf :: "Config \<Rightarrow> V0 \<Rightarrow> PxPyPzMVector" where
  "daughterOf cfg v = \<lparr>Px = px v, Py = py v, Pz = pz v, fM = MassK0Short cfg\<rparr>"

definition motherOf :: "Config \<Rightarrow> V0 \<times> V0 \<Rightarrow> PxPyPzMVector" where
  "motherOf cfg p = plus4 (daughterOf cfg (fst p)) (daughterOf cfg (snd p))"

definition processSEfills ::
  "Config \<Rightarrow> (nat \<Rightarrow> real) \<Rightarrow> (nat \<Rightarrow> real \<times> real) \<Rightarrow> Collision \<Rightarrow> (int \<Rightarrow> Track) \<Rightarrow> V0 list
     \<Rightarrow> Fill list" where
  "processSEfills cfg rn g collision tracks V0s =
     concat (map (\<lambda>(k, p).
         fillInvMass cfg (\<lambda>i. rn (k * nat (cRotations cfg) + i)) (g k) (motherOf cfg p)
           (multiplicityOf cfg collision) (daughterOf cfg (fst p)) (daughterOf cfg (snd p)) False)
       (enumerate 0 (processSE cfg collision tracks V0s)))"

text \<open>
  The cosine that \<^verbatim>\<open>fillInvMass\<close> computes for the entry: the branches are tried in the
  order helicity, production plane, beam, random axis, and the first enabled one computes
  its cosine from the daughter boosted to the rest frame of the mother.
\<close>

definition primaryCosThetaStar ::
  "Config \<Rightarrow> real \<times> real \<Rightarrow> PxPyPzMVector \<Rightarrow> PxPyPzMVector \<Rightarrow> real" where
  "primaryCosThetaStar cfg g mother daughter1 =
     (let fourVecDauCM = boost4 (SetComponents (BoostToCM mother)) daughter1
      in if activateTHnSparseCosThStarHelicity cfg
           then cosThetaStarHelicity mother fourVecDauCM
         else if activateTHnSparseCosThStarProduction cfg
           then cosThetaStarProduction mother fourVecDauCM
         else if activateTHnSparseCosThStarBeam cfg
           then cosThetaStarBeam fourVecDauCM
         else cosThetaStarRandom g fourVecDauCM)"

section \<open>Example inputs\<close>

text \<open>Concrete inputs at which the theorems below are instantiated.\<close>

definition exampleD0Config :: D0Config where
  "exampleD0Config = \<lparr>ptCandMin = 0, ptCandMax = 50, binsPt = [1, 2, 4],
     cuts = [(\<lambda>l. 0), (\<lambda>l. 0)], MassD0 = 1.86484\<rparr>"

definition exampleD0Candidate :: D0Candidate where
  "exampleD0Candidate = \<lparr>d0pt = 0.5, d0p = 1, impactParameterProduct = 0, cpa = 1, cpaXY = 1,
     decayLength = 1, decayLengthXY = 1, decayLengthNormalised = 1, decayLengthXYNormalised = 1,
     impactParameterNormalised0 = 1, impactParameterNormalised1 = 1, invMassD0ToPiK = 1.86484,
     invMassD0barToKPi = 1.86484, cosThetaStarD0 = 0, cosThetaStarD0bar = 0\<rparr>"

definition exampleProng :: Prong where
  "exampleProng = \<lparr>prongSign = 1, prongPt = 1, dcaXY = 0\<rparr>"

definition exampleRn :: "nat \<Rightarrow> real" where
  "exampleRn i = 1 / 2"

definition exampleBackward :: PxPyPzMVector where
  "exampleBackward = \<lparr>Px = 0, Py = 0, Pz = -4, fM = 3\<rparr>"

definition helicityConfig :: Config where
  "helicityConfig = defaultConfig\<lparr>activateTHnSparseCosThStarHelicity := True\<rparr>"

definition exampleDaughterA :: PxPyPzMVector where
  "exampleDaughterA = daughterVector 0.4976 (1, 0, 0)"

definition exampleDaughterB :: PxPyPzMVector where
  "exampleDaughterB = daughterVector 0.4976 (-1, 0, 0)"

definition exampleMother :: PxPyPzMVector where
  "exampleMother = motherVector 0.4976 (1, 0, 0) (-1, 0, 0)"

text \<open>
  A collision that passes the event selection, candidates that pass the default
  selections, and a track table whose even rows are positive and whose odd rows are
  negative tracks. \<open>exampleK0c\<close> and \<open>exampleK0d\<close> have the positive daughter of
  \<open>exampleK0a\<close>; \<open>exampleK0d\<close> belongs to the second collision.
\<close>

definition exampleCollision :: Collision where
  "exampleCollision = \<lparr>collisionIndex = 0, posX = 0, posY = 0, posZ = 0, centFT0M = 50,
     centFT0C = 50, kNoTimeFrameBorder = True, kNoITSROFrameBorder = True, sel8 = True,
     rctChecker = True\<rparr>"

definition exampleCollision2 :: Collision where
  "exampleCollision2 = exampleCollision\<lparr>collisionIndex := 1\<rparr>"

definition exampleV0 :: "int \<Rightarrow> int \<Rightarrow> int \<Rightarrow> V0" where
  "exampleV0 i pos neg = \<lparr>globalIndex = i, straCollisionId = 0, posTrackId = pos,
     negTrackId = neg, px = 1, py = 0, pz = 0, pt = 1, eta = 0, phi = 0, v0radius = 1,
     dcaV0daughters = 0.5, v0cosPA = 0.99, dcav0topv = 0, distovertotmom = (\<lambda>x y z. 1),
     yK0Short = 0, mK0Short = 0.497, mLambda = 1.2, mAntiLambda = 1.2\<rparr>"

definition exampleTracks :: "int \<Rightarrow> Track" where
  "exampleTracks i = \<lparr>sign = (if even i then 1 else -1), trackEta = 0, tpcNSigmaPi = 0,
     hasTPC = True, isGlobalTrack = True, tpcNClsFound = 100, tpcNClsCrossedRows = 100,
     tpcCrossedRowsOverFindableCls = 1\<rparr>"

definition exampleK0a :: V0 where
  "exampleK0a = exampleV0 0 0 1"

definition exampleK0b :: V0 where
  "exampleK0b = exampleV0 1 2 3"

definition exampleK0c :: V0 where
  "exampleK0c = exampleV0 2 0 5"

definition exampleK0d :: V0 where
  "exampleK0d = (exampleV0 3 0 7)\<lparr>straCollisionId := 1\<rparr>"

text \<open>
  A configuration that hands on every accepted pair, one that also applies the
  angular-separation cut, two more candidates (\<open>exampleK0f\<close> at pseudorapidity 1), draws of
  the global generator, and two daughters along the beam axis.
\<close>

definition pairsConfig :: Config where
  "pairsConfig = defaultConfig\<lparr>selectTWOKsOnly := False\<rparr>"

definition angSepConfig :: Config where
  "angSepConfig = defaultConfig\<lparr>selectTWOKsOnly := False, applyAngSepCut := True\<rparr>"

definition exampleK0e :: V0 where
  "exampleK0e = exampleV0 4 8 9"

definition exampleK0f :: V0 where
  "exampleK0f = (exampleV0 5 10 11)\<lparr>eta := 1\<rparr>"

definition exampleG :: "nat \<Rightarrow> real \<times> real" where
  "exampleG k = (1 / 2, 1 / 2)"

definition exampleUp :: PxPyPzMVector where
  "exampleUp = \<lparr>Px = 0, Py = 0, Pz = 3, fM = 4\<rparr>"

definition exampleDown :: PxPyPzMVector where
  "exampleDown = \<lparr>Px = 0, Py = 0, Pz = -3, fM = 4\<rparr>"

section \<open>Properties of the mother four-vector\<close>

lemma plus4_commute: "plus4 v q = plus4 q v"
  by (simp add: plus4_def add.commute)

lemma E2_max: "E2 v = max 0 (P2 v + M2 v)"
  by (simp add: E2_def Let_def max_def)

lemma E_daughter:
  assumes "0 \<le> c"
  shows "E (daughterVector c (x, y, z)) = sqrt (x * x + y * y + z * z + c * c)"
proof -
  define a where "a = x * x + y * y + z * z + c * c"
  have "0 \<le> a" by (simp add: a_def)
  then have "max 0 a = a" by simp
  moreover have "P2 (daughterVector c (x, y, z)) + M2 (daughterVector c (x, y, z)) = a"
    using assms by (simp add: P2_def M2_def daughterVector_def a_def)
  ultimately show ?thesis
    by (simp add: E_def E2_max a_def)
qed

lemma back_to_back_general:
  assumes "0 \<le> c"
  shows "motherVector c (1, 0, 0) (-1, 0, 0) = \<lparr>Px = 0, Py = 0, Pz = 0, fM = 2 * sqrt (1 + c\<^sup>2)\<rparr>"
proof -
  define s where "s = sqrt (1 + c * c)"
  have s0: "0 \<le> s" by (simp add: s_def)
  have e: "E (daughterVector c (1, 0, 0)) = s" "E (daughterVector c (-1, 0, 0)) = s"
    using assms by (simp_all add: E_daughter s_def)
  have "sqrt ((s + s) * (s + s)) = s + s"
    using s0 by (simp only: real_sqrt_abs2 abs_of_nonneg add_nonneg_nonneg)
  then show ?thesis
    unfolding motherVector_def plus4_def e
    by (simp add: SetPxPyPzE_def daughterVector_def s_def [symmetric] power2_eq_square)
qed

text \<open>
  Claim C4, as amended. Two daughters with momenta (1, 0, 0) and (-1, 0, 0) GeV under the
  mass hypothesis 0.4976 GeV give a mother with transverse momentum 0 and with invariant
  mass equal to the sum of the two daughter energies, \<open>2 * sqrt (1 + 0.4976\<^sup>2)\<close>.
\<close>

theorem back_to_back_mother:
  "Pt (motherVector 0.4976 (1, 0, 0) (-1, 0, 0)) = 0 \<and>
   M (motherVector 0.4976 (1, 0, 0) (-1, 0, 0)) = 2 * sqrt (1 + 0.4976\<^sup>2)"
  using back_to_back_general [of "0.4976"] by (simp add: Pt_def M_def)

text \<open>
  Claim C4, as stated, fails: the invariant mass of that mother is not \<open>2 * 0.4976\<close>,
  since each daughter's energy is at least 1.
\<close>

theorem back_to_back_mass_counterexample:
  "\<not> (Pt (motherVector 0.4976 (1, 0, 0) (-1, 0, 0)) = 0 \<and>
      M (motherVector 0.4976 (1, 0, 0) (-1, 0, 0)) = 2 * 0.4976)"
proof -
  define t :: real where "t = sqrt (1 + 0.4976\<^sup>2)"
  have t1: "1 \<le> t"
    unfolding t_def by (rule real_le_rsqrt) simp
  have "M (motherVector 0.4976 (1, 0, 0) (-1, 0, 0)) = 2 * t"
    using back_to_back_general [of "0.4976"] by (simp add: M_def t_def)
  with t1 show ?thesis by simp
qed

text \<open>
  Claim C6. For every pair of daughter momenta and every mass hypothesis, swapping the two
  daughters leaves the invariant mass and the transverse momentum of the mother unchanged.
\<close>

theorem mother_swap_invariant:
  "M (motherVector mass p1 p2) = M (motherVector mass p2 p1) \<and>
   Pt (motherVector mass p1 p2) = Pt (motherVector mass p2 p1)"
  by (simp add: motherVector_def plus4_commute [of "daughterVector mass p1"])

section \<open>The start-up check\<close>

text \<open>
  Claim C8. \<^verbatim>\<open>init\<close> ends in the fatal error exactly when none of the four reference-axis
  switches is enabled, and passes the check (returning its log lines) exactly when at least
  one is enabled. \<^verbatim>\<open>init\<close> is the hook that the framework runs once at start-up.
\<close>

theorem init_fatal_iff:
  "(init cfg = Inl (Fatal ''No output THnSparses enabled'')) =
     (\<not> (activateTHnSparseCosThStarHelicity cfg \<or> activateTHnSparseCosThStarProduction cfg \<or>
         activateTHnSparseCosThStarBeam cfg \<or> activateTHnSparseCosThStarRandom cfg)) \<and>
   (\<exists>msgs. init cfg = Inr msgs) =
     (activateTHnSparseCosThStarHelicity cfg \<or> activateTHnSparseCosThStarProduction cfg \<or>
      activateTHnSparseCosThStarBeam cfg \<or> activateTHnSparseCosThStarRandom cfg)"
  by (auto simp add: init_def of_bool_def)

text \<open>
  The theorem at the default configuration (beam axis enabled) and at the default
  configuration with the beam axis switched off (no axis enabled).
\<close>

theorem init_fatal_iff_witness:
  "(\<exists>msgs. init defaultConfig = Inr msgs) \<and>
   init (defaultConfig\<lparr>activateTHnSparseCosThStarBeam := False\<rparr>)
     = Inl (Fatal ''No output THnSparses enabled'')"
  using init_fatal_iff [of defaultConfig]
    init_fatal_iff [of "defaultConfig\<lparr>activateTHnSparseCosThStarBeam := False\<rparr>"]
  by (simp add: defaultConfig_def)

section \<open>The angle of the rotational background\<close>

text \<open>
  Claim C3, as amended. With \<^verbatim>\<open>rotationalCut\<close> set to 10, every angle drawn for the
  rotational background lies strictly inside the band from \<open>pi - pi / 10\<close> to
  \<open>pi + pi / 10\<close>: the parameter gives the window the angle is drawn from.
\<close>

theorem rotation_angle_in_window:
  assumes "rotationalCut cfg = 10" and "0 < u" and "u < 1"
  shows "pi - pi / 10 < theta2 cfg u \<and> theta2 cfg u < pi + pi / 10"
proof -
  have t: "theta2 cfg u = pi - pi / 10 + (pi / 5) * u"
    using assms(1) by (simp add: theta2_def Uniform_def algebra_simps)
  have "0 < (pi / 5) * u" using assms(2) by simp
  moreover have "(pi / 5) * u < (pi / 5) * 1"
    using assms(3) by (intro mult_strict_left_mono) simp_all
  ultimately show ?thesis unfolding t by simp
qed

text \<open>
  The theorem at the default configuration and the draw \<open>1 / 2\<close>.
\<close>

theorem rotation_angle_in_window_witness:
  "rotationalCut defaultConfig = 10 \<and> (0::real) < 1 / 2 \<and> (1::real) / 2 < 1 \<and>
   pi - pi / 10 < theta2 defaultConfig (1 / 2) \<and> theta2 defaultConfig (1 / 2) < pi + pi / 10"
  using rotation_angle_in_window [of defaultConfig "1 / 2"]
  by (simp add: defaultConfig_def)

text \<open>
  Claim C3, as stated, fails: with the default \<^verbatim>\<open>rotationalCut\<close> of 10 the draw
  \<open>1 / 2\<close> gives the angle \<open>pi\<close>, the centre of the band that the claim calls excluded.
\<close>

theorem rotation_angle_counterexample:
  "rotationalCut defaultConfig = 10 \<and> theta2 defaultConfig (1 / 2) = pi \<and>
   pi - pi / 10 \<le> theta2 defaultConfig (1 / 2) \<and> theta2 defaultConfig (1 / 2) \<le> pi + pi / 10"
  by (simp add: theta2_def Uniform_def defaultConfig_def)

section \<open>The range of the azimuthal angle\<close>

lemma atan2_bounds: "- pi \<le> atan2 y x \<and> atan2 y x \<le> pi"
proof -
  have a: "- (pi / 2) < arctan (y / x)" "arctan (y / x) < pi / 2"
    by (rule arctan_lbound, rule arctan_ubound)
  have pos: "0 < pi" by simp
  consider (right) "0 < x" | (up) "x < 0" "0 \<le> y" | (down) "x < 0" "y < 0" | (axis) "x = 0"
    by linarith
  then show ?thesis
  proof cases
    case right
    then have "atan2 y x = arctan (y / x)" by (simp add: atan2_def)
    with a pos show ?thesis by linarith
  next
    case up
    then have "y / x \<le> 0" by (simp add: divide_nonneg_neg)
    then have "arctan (y / x) \<le> 0" by (simp add: arctan_le_zero_iff)
    moreover from up have "atan2 y x = arctan (y / x) + pi" by (simp add: atan2_def)
    ultimately show ?thesis using a pos by linarith
  next
    case down
    then have "0 < y / x" by (simp add: divide_neg_neg)
    then have "0 < arctan (y / x)" by (simp add: zero_less_arctan_iff)
    moreover from down have "atan2 y x = arctan (y / x) - pi" by (simp add: atan2_def)
    ultimately show ?thesis using a pos by linarith
  next
    case axis
    then have "atan2 y x = pi / 2 \<or> atan2 y x = - pi / 2 \<or> atan2 y x = 0"
      by (simp add: atan2_def)
    with pos show ?thesis by linarith
  qed
qed

lemma ATan2_bounds: "- pi \<le> ATan2 y x \<and> ATan2 y x \<le> pi"
proof -
  have pos: "0 < pi" by simp
  have "ATan2 y x = atan2 y x \<or> ATan2 y x = 0 \<or> ATan2 y x = pi / 2 \<or> ATan2 y x = - pi / 2"
    by (simp add: ATan2_def)
  with atan2_bounds [of y x] pos show ?thesis by linarith
qed

lemma angle_phi_bounds: "0 \<le> angle_phi mother daughter1 \<and> angle_phi mother daughter1 < 2 * pi"
proof -
  have pos: "0 < pi" by simp
  have r: "- pi \<le> angle_phi_raw mother daughter1 \<and> angle_phi_raw mother daughter1 \<le> pi"
    unfolding angle_phi_raw_def Let_def by (rule ATan2_bounds)
  show ?thesis
  proof (cases "angle_phi_raw mother daughter1 < 0")
    case True
    then have "angle_phi mother daughter1 = angle_phi_raw mother daughter1 + 2 * pi"
      by (simp add: angle_phi_def)
    with r True pos show ?thesis by linarith
  next
    case False
    then have "angle_phi mother daughter1 = angle_phi_raw mother daughter1"
      by (simp add: angle_phi_def)
    with r False pos show ?thesis by linarith
  qed
qed

lemma rotationHelicity_if:
  "rotationHelicity cfg multiplicity daughter1 daughter2 ph u =
     (if Rapidity (plus4 (rotated daughter1 (theta2 cfg u)) daughter2) < 0.5
      then [Fill h3glueInvMassRot multiplicity
              (Pt (plus4 (rotated daughter1 (theta2 cfg u)) daughter2))
              (M (plus4 (rotated daughter1 (theta2 cfg u)) daughter2))
              (cosThetaStarHelicity (plus4 (rotated daughter1 (theta2 cfg u)) daughter2)
                 (boost4 (SetComponents (BoostToCM (plus4 (rotated daughter1 (theta2 cfg u)) daughter2)))
                    (rotated daughter1 (theta2 cfg u))))
              ph]
      else [])"
  by (simp add: rotationHelicity_def Let_def)

lemma rotationMother_if:
  "rotationMother cfg multiplicity mother c ph u =
     (if \<bar>Rapidity (rotated mother (theta2 cfg u))\<bar> < 0.5
      then [Fill h3glueInvMassRot multiplicity (Pt (rotated mother (theta2 cfg u)))
              (M (rotated mother (theta2 cfg u))) c ph]
      else [])"
  by (simp add: rotationMother_def Let_def)

lemma fillInvMass_phi:
  assumes "f \<in> set (fillInvMass cfg rn g mother multiplicity daughter1 daughter2 isMix)"
  shows "fillPhi f = angle_phi mother daughter1"
  using assms
  by (auto simp add: fillInvMass_def fillWithCos_def rotationHelicity_if rotationMother_if Let_def
      split: if_splits)

text \<open>
  Claim C10. The azimuthal angle is the two-argument arctangent with \<open>2 * pi\<close> added
  once when it is negative; it lies in the interval from 0 (included) to \<open>2 * pi\<close>
  (excluded), and every entry that \<^verbatim>\<open>fillInvMass\<close> records carries this angle.
\<close>

theorem azimuth_normalised:
  "angle_phi mother daughter1 =
     (if angle_phi_raw mother daughter1 < 0 then angle_phi_raw mother daughter1 + 2 * pi
      else angle_phi_raw mother daughter1) \<and>
   0 \<le> angle_phi mother daughter1 \<and> angle_phi mother daughter1 < 2 * pi \<and>
   (\<forall>f \<in> set (fillInvMass cfg rn g mother multiplicity daughter1 daughter2 isMix).
      fillPhi f = angle_phi mother daughter1)"
  using angle_phi_bounds [of mother daughter1]
  by (simp add: fillInvMass_phi) (simp add: angle_phi_def)

section \<open>The rapidity gates of the recorded entries\<close>

lemma filter_concat_none:
  assumes "\<And>i f. f \<in> set (body i) \<Longrightarrow> \<not> P f"
  shows "filter P (concat (map body xs)) = []"
  using assms by (induction xs) (simp_all add: filter_empty_conv)

lemma filter_concat_all:
  assumes "\<And>i f. f \<in> set (body i) \<Longrightarrow> P f"
  shows "filter P (concat (map body xs)) = concat (map body xs)"
  using assms by (induction xs) simp_all

lemma length_concat_gate:
  "length (concat (map (\<lambda>i. if Q i then [F i] else []) xs)) = length (filter Q xs)"
  by (induction xs) simp_all

lemma fillWithCos_DS:
  "filter (\<lambda>f. hist f = h3glueInvMassDS) (fillWithCos cfg rn mother multiplicity c ph False) =
     (if \<bar>Rapidity mother\<bar> < 0.5
      then [Fill h3glueInvMassDS multiplicity (Pt mother) (M mother) c ph] else [])"
proof -
  have "filter (\<lambda>f. hist f = h3glueInvMassDS)
          (concat (map (\<lambda>i. rotationMother cfg multiplicity mother c ph (rn i))
             [0..<nat (cRotations cfg)])) = []"
    by (rule filter_concat_none) (simp add: rotationMother_if split: if_splits)
  then show ?thesis
    by (simp add: fillWithCos_def)
qed

lemma fillInvMass_helicity_DS:
  assumes "activateTHnSparseCosThStarHelicity cfg"
  shows "filter (\<lambda>f. hist f = h3glueInvMassDS)
           (fillInvMass cfg rn g mother multiplicity daughter1 daughter2 False) =
     (if \<bar>Rapidity mother\<bar> < 0.5
      then [Fill h3glueInvMassDS multiplicity (Pt mother) (M mother)
              (cosThetaStarHelicity mother (boost4 (SetComponents (BoostToCM mother)) daughter1))
              (angle_phi mother daughter1)] else [])"
proof -
  have "filter (\<lambda>f. hist f = h3glueInvMassDS)
          (concat (map (\<lambda>i. rotationHelicity cfg multiplicity daughter1 daughter2
                               (angle_phi mother daughter1) (rn i))
             [0..<nat (cRotations cfg)])) = []"
    by (rule filter_concat_none) (simp add: rotationHelicity_if split: if_splits)
  then show ?thesis
    using assms by (simp add: fillInvMass_def Let_def)
qed

lemma fillInvMass_DS:
  assumes "activateTHnSparseCosThStarHelicity cfg \<or> activateTHnSparseCosThStarProduction cfg \<or>
           activateTHnSparseCosThStarBeam cfg \<or> activateTHnSparseCosThStarRandom cfg"
  shows "filter (\<lambda>f. hist f = h3glueInvMassDS)
           (fillInvMass cfg rn g mother multiplicity daughter1 daughter2 False) =
         (if \<bar>Rapidity mother\<bar> < 0.5
          then [Fill h3glueInvMassDS multiplicity (Pt mother) (M mother)
                  (primaryCosThetaStar cfg g mother daughter1) (angle_phi mother daughter1)]
          else [])"
proof (cases "activateTHnSparseCosThStarHelicity cfg")
  case True
  then show ?thesis
    by (simp only: fillInvMass_helicity_DS primaryCosThetaStar_def Let_def if_True)
next
  case False
  with assms have "fillInvMass cfg rn g mother multiplicity daughter1 daughter2 False =
      fillWithCos cfg rn mother multiplicity (primaryCosThetaStar cfg g mother daughter1)
        (angle_phi mother daughter1) False"
    by (auto simp add: fillInvMass_def primaryCosThetaStar_def Let_def)
  then show ?thesis
    by (simp only: fillWithCos_DS)
qed

lemma filter_concat_map:
  "filter P (concat (map f xs)) = concat (map (\<lambda>x. filter P (f x)) xs)"
  by (induction xs) simp_all

lemma fillWithCos_Rot:
  "length (filter (\<lambda>f. hist f = h3glueInvMassRot)
             (fillWithCos cfg rn mother multiplicity c ph False)) =
   length (filter (\<lambda>i. \<bar>Rapidity (rotated mother (theta2 cfg (rn i)))\<bar> < 0.5)
             [0..<nat (cRotations cfg)])"
proof -
  have "filter (\<lambda>f. hist f = h3glueInvMassRot)
          (concat (map (\<lambda>i. rotationMother cfg multiplicity mother c ph (rn i))
             [0..<nat (cRotations cfg)]))
        = concat (map (\<lambda>i. rotationMother cfg multiplicity mother c ph (rn i))
             [0..<nat (cRotations cfg)])"
    by (rule filter_concat_all) (simp add: rotationMother_if split: if_splits)
  then show ?thesis
    by (simp add: fillWithCos_def rotationMother_if length_concat_gate)
qed

lemma fillInvMass_helicity_Rot:
  assumes "activateTHnSparseCosThStarHelicity cfg"
  shows "length (filter (\<lambda>f. hist f = h3glueInvMassRot)
             (fillInvMass cfg rn g mother multiplicity daughter1 daughter2 False)) =
   length (filter (\<lambda>i. Rapidity (plus4 (rotated daughter1 (theta2 cfg (rn i))) daughter2) < 0.5)
             [0..<nat (cRotations cfg)])"
proof -
  have "filter (\<lambda>f. hist f = h3glueInvMassRot)
          (concat (map (\<lambda>i. rotationHelicity cfg multiplicity daughter1 daughter2
                               (angle_phi mother daughter1) (rn i))
             [0..<nat (cRotations cfg)]))
        = concat (map (\<lambda>i. rotationHelicity cfg multiplicity daughter1 daughter2
                               (angle_phi mother daughter1) (rn i))
             [0..<nat (cRotations cfg)])"
    by (rule filter_concat_all) (simp add: rotationHelicity_if split: if_splits)
  then show ?thesis
    using assms by (simp add: fillInvMass_def Let_def rotationHelicity_if length_concat_gate)
qed

lemma fillInvMass_other:
  assumes "\<not> activateTHnSparseCosThStarHelicity cfg"
    and "activateTHnSparseCosThStarProduction cfg \<or> activateTHnSparseCosThStarBeam cfg \<or>
         activateTHnSparseCosThStarRandom cfg"
  shows "\<exists>c. fillInvMass cfg rn g mother multiplicity daughter1 daughter2 isMix =
      fillWithCos cfg rn mother multiplicity c (angle_phi mother daughter1) isMix"
  using assms by (auto simp add: fillInvMass_def Let_def)

text \<open>
  Claim C9. With the helicity axis enabled, the number of rotational-background entries
  is the number of rotations whose rebuilt mother has rapidity below 0.5 (signed, no
  absolute value). With the helicity axis disabled and the production-plane, beam or random
  axis enabled, it is the number of rotations whose rotated mother has absolute rapidity
  below 0.5.
\<close>

theorem rotational_entry_gate:
  "(activateTHnSparseCosThStarHelicity cfg \<longrightarrow>
      length (filter (\<lambda>f. hist f = h3glueInvMassRot)
                (fillInvMass cfg rn g mother multiplicity daughter1 daughter2 False)) =
      length (filter (\<lambda>i. Rapidity (plus4 (rotated daughter1 (theta2 cfg (rn i))) daughter2) < 0.5)
                [0..<nat (cRotations cfg)])) \<and>
   (\<not> activateTHnSparseCosThStarHelicity cfg \<and>
    (activateTHnSparseCosThStarProduction cfg \<or> activateTHnSparseCosThStarBeam cfg \<or>
     activateTHnSparseCosThStarRandom cfg) \<longrightarrow>
      length (filter (\<lambda>f. hist f = h3glueInvMassRot)
                (fillInvMass cfg rn g mother multiplicity daughter1 daughter2 False)) =
      length (filter (\<lambda>i. \<bar>Rapidity (rotated mother (theta2 cfg (rn i)))\<bar> < 0.5)
                [0..<nat (cRotations cfg)]))"
proof (intro conjI impI)
  assume "activateTHnSparseCosThStarHelicity cfg"
  then show "length (filter (\<lambda>f. hist f = h3glueInvMassRot)
                (fillInvMass cfg rn g mother multiplicity daughter1 daughter2 False)) =
      length (filter (\<lambda>i. Rapidity (plus4 (rotated daughter1 (theta2 cfg (rn i))) daughter2) < 0.5)
                [0..<nat (cRotations cfg)])"
    by (rule fillInvMass_helicity_Rot)
next
  assume a: "\<not> activateTHnSparseCosThStarHelicity cfg \<and>
    (activateTHnSparseCosThStarProduction cfg \<or> activateTHnSparseCosThStarBeam cfg \<or>
     activateTHnSparseCosThStarRandom cfg)"
  then obtain c where "fillInvMass cfg rn g mother multiplicity daughter1 daughter2 False =
      fillWithCos cfg rn mother multiplicity c (angle_phi mother daughter1) False"
    using fillInvMass_other [of cfg rn g mother multiplicity daughter1 daughter2 False] by blast
  then show "length (filter (\<lambda>f. hist f = h3glueInvMassRot)
                (fillInvMass cfg rn g mother multiplicity daughter1 daughter2 False)) =
      length (filter (\<lambda>i. \<bar>Rapidity (rotated mother (theta2 cfg (rn i)))\<bar> < 0.5)
                [0..<nat (cRotations cfg)])"
    by (simp only: fillWithCos_Rot)
qed

section \<open>The gates at concrete inputs\<close>

lemma sqrt_square_numeral: "0 \<le> a \<Longrightarrow> b = a * a \<Longrightarrow> sqrt b = a"
  by (simp add: real_sqrt_abs2)

lemma E_exampleBackward: "E exampleBackward = 5"
  by (simp add: E_def E2_def P2_def M2_def exampleBackward_def sqrt_square_numeral [of 5])

lemma rotated_exampleBackward: "rotated exampleBackward th = exampleBackward"
  by (simp add: rotated_def exampleBackward_def M_def)

lemma plus4_exampleBackward:
  "plus4 exampleBackward exampleBackward = \<lparr>Px = 0, Py = 0, Pz = -8, fM = 6\<rparr>"
  unfolding plus4_def E_exampleBackward
  by (simp add: SetPxPyPzE_def exampleBackward_def sqrt_square_numeral [of 6])

lemma ln_nine: "1 \<le> ln (9 :: real)"
proof -
  have "exp (1 :: real) \<le> 9" using exp_le by linarith
  then have "ln (exp (1 :: real)) \<le> ln 9" by (subst ln_le_cancel_iff) simp_all
  then show ?thesis by simp
qed

lemma Rapidity_backward_mother:
  "Rapidity \<lparr>Px = 0, Py = 0, Pz = -8, fM = 6\<rparr> = - (ln 9 / 2)"
proof -
  have e: "E \<lparr>Px = 0, Py = 0, Pz = -8, fM = 6\<rparr> = 10"
    by (simp add: E_def E2_def P2_def M2_def sqrt_square_numeral [of 10])
  have "ln (1 / 9 :: real) = - ln 9" by (simp add: ln_div)
  then show ?thesis
    by (simp add: Rapidity_def e)
qed

lemma rotated_backward_mother:
  "rotated \<lparr>Px = 0, Py = 0, Pz = -8, fM = 6\<rparr> th = \<lparr>Px = 0, Py = 0, Pz = -8, fM = 6\<rparr>"
  by (simp add: rotated_def M_def)

text \<open>
  Claim C9 at a mother of rapidity \<open>- ln 3\<close>, below -0.5: with the helicity axis all
  three rotations are recorded, with the default beam axis none is.
\<close>

theorem rotational_entry_gate_witness:
  "activateTHnSparseCosThStarHelicity helicityConfig \<and>
   Rapidity (plus4 exampleBackward exampleBackward) \<le> - 0.5 \<and>
   length (filter (\<lambda>f. hist f = h3glueInvMassRot)
     (fillInvMass helicityConfig exampleRn (1 / 2, 1 / 2) (plus4 exampleBackward exampleBackward) 0
        exampleBackward exampleBackward False)) = 3 \<and>
   \<not> activateTHnSparseCosThStarHelicity defaultConfig \<and>
   activateTHnSparseCosThStarBeam defaultConfig \<and>
   length (filter (\<lambda>f. hist f = h3glueInvMassRot)
     (fillInvMass defaultConfig exampleRn (1 / 2, 1 / 2) (plus4 exampleBackward exampleBackward) 0
        exampleBackward exampleBackward False)) = 0"
proof -
  have h: "activateTHnSparseCosThStarHelicity helicityConfig" "cRotations helicityConfig = 3"
    by (simp_all add: helicityConfig_def defaultConfig_def)
  have d: "\<not> activateTHnSparseCosThStarHelicity defaultConfig"
    "activateTHnSparseCosThStarBeam defaultConfig" "cRotations defaultConfig = 3"
    by (simp_all add: defaultConfig_def)
  have r: "Rapidity \<lparr>Px = 0, Py = 0, Pz = -8, fM = 6\<rparr> \<le> - 0.5"
    using ln_nine by (simp add: Rapidity_backward_mother)
  show ?thesis
    using r rotational_entry_gate [of helicityConfig exampleRn "(1 / 2, 1 / 2)"
        "plus4 exampleBackward exampleBackward" 0 exampleBackward exampleBackward]
      rotational_entry_gate [of defaultConfig exampleRn "(1 / 2, 1 / 2)"
        "plus4 exampleBackward exampleBackward" 0 exampleBackward exampleBackward]
    by (simp add: h d rotated_exampleBackward plus4_exampleBackward rotated_backward_mother)
qed

lemma Rapidity_exampleMother: "Rapidity exampleMother = 0"
proof -
  define s :: real where "s = 2 * sqrt (1 + 0.4976\<^sup>2)"
  have s0: "0 < s" unfolding s_def by (simp add: add_pos_nonneg)
  have m: "exampleMother = \<lparr>Px = 0, Py = 0, Pz = 0, fM = s\<rparr>"
    using back_to_back_general [of "0.4976"] by (simp add: s_def exampleMother_def)
  have "E \<lparr>Px = 0, Py = 0, Pz = 0, fM = s\<rparr> = s"
    using s0 by (simp add: E_def E2_def P2_def M2_def real_sqrt_abs2)
  then show ?thesis
    using s0 unfolding m by (simp add: Rapidity_def)
qed

text \<open>
  Claim C10 at the same mother, handed over as a mixed pair: the recorded entry carries
  an angle in the interval.
\<close>

theorem azimuth_normalised_witness:
  "\<exists>f \<in> set (fillInvMass defaultConfig exampleRn (1 / 2, 1 / 2) exampleMother 0
               exampleDaughterA exampleDaughterB True).
     0 \<le> fillPhi f \<and> fillPhi f < 2 * pi"
proof -
  have "fillInvMass defaultConfig exampleRn (1 / 2, 1 / 2) exampleMother 0
               exampleDaughterA exampleDaughterB True \<noteq> []"
    by (simp add: fillInvMass_def fillWithCos_def defaultConfig_def Rapidity_exampleMother Let_def)
  then obtain f where f: "f \<in> set (fillInvMass defaultConfig exampleRn (1 / 2, 1 / 2)
               exampleMother 0 exampleDaughterA exampleDaughterB True)"
    by (cases "fillInvMass defaultConfig exampleRn (1 / 2, 1 / 2) exampleMother 0
               exampleDaughterA exampleDaughterB True") auto
  with azimuth_normalised [of exampleMother exampleDaughterA defaultConfig exampleRn
      "(1 / 2, 1 / 2)" 0 exampleDaughterB True]
  show ?thesis by metis
qed

section \<open>The D0 selector below the lowest bin edge\<close>

text \<open>
  Claim C5. When the candidate's transverse momentum is below the lowest configured bin
  edge, the bin lookup gives -1 and both topological selections return false, whatever the
  other cut values and candidate quantities are; no error arises.
\<close>

theorem below_lowest_edge_rejected:
  assumes "binsPt cfg \<noteq> []" and "d0pt candidate < hd (binsPt cfg)"
  shows "findBin (binsPt cfg) (d0pt candidate) = -1 \<and>
         selectionTopol cfg candidate = Inr False \<and>
         selectionTopolConjugate cfg candidate trackPion trackKaon = Inr False"
proof -
  have b: "findBin (binsPt cfg) (d0pt candidate) = -1"
    using assms by (simp add: findBin_def)
  show ?thesis
    by (simp add: b selectionTopol_def selectionTopolConjugate_def)
qed

text \<open>
  The theorem at the bin edges 1, 2, 4 and a candidate of transverse momentum 0.5.
\<close>

theorem below_lowest_edge_rejected_witness:
  "binsPt exampleD0Config \<noteq> [] \<and> d0pt exampleD0Candidate < hd (binsPt exampleD0Config) \<and>
   findBin (binsPt exampleD0Config) (d0pt exampleD0Candidate) = -1 \<and>
   selectionTopol exampleD0Config exampleD0Candidate = Inr False \<and>
   selectionTopolConjugate exampleD0Config exampleD0Candidate exampleProng exampleProng = Inr False"
  using below_lowest_edge_rejected [of exampleD0Config exampleD0Candidate exampleProng exampleProng]
  by (simp add: exampleD0Config_def exampleD0Candidate_def)

section \<open>The pairs handed to the filling\<close>

text \<open>
  The body of the same-event loop in terms of the accepted pairs, and the pairs that
  \<^verbatim>\<open>processSE\<close> hands on: none, the last accepted pair, or all accepted pairs in the
  order of the loop.
\<close>

lemma seStep_not_selected:
  assumes "\<not> (candidateSelected cfg collision tracks v1 \<and> candidateSelected cfg collision tracks v2)"
  shows "seStep cfg collision tracks st (v1, v2) = st"
  using assms by (simp add: seStep_def candidateSelected_def Let_def)

lemma seStep_selected:
  assumes "candidateSelected cfg collision tracks v1" and "candidateSelected cfg collision tracks v2"
    and "\<not> sePairAccepted cfg collision tracks (v1, v2)"
  shows "seStep cfg collision tracks st (v1, v2) =
     (if globalIndex v1 \<notin> set (v0indexes st)
      then st\<lparr>v0indexes := v0indexes st @ [narrow32 (globalIndex v1)]\<rparr> else st)"
proof -
  from assms have r: "globalIndex v2 \<le> globalIndex v1 \<or> posTrackId v1 = posTrackId v2 \<or>
      negTrackId v1 = negTrackId v2 \<or> \<not> applyAngSep cfg v1 v2"
    by (auto simp add: sePairAccepted_def)
  from assms(1,2) have s: "selectionV0 cfg collision v1" "selectionV0 cfg collision v2"
    "isSelectedV0Daughter cfg (tracks (negTrackId v1)) (-1) (tpcNSigmaPi (tracks (negTrackId v1)))"
    "isSelectedV0Daughter cfg (tracks (posTrackId v1)) 1 (tpcNSigmaPi (tracks (posTrackId v1)))"
    "isSelectedV0Daughter cfg (tracks (negTrackId v2)) (-1) (tpcNSigmaPi (tracks (negTrackId v2)))"
    "isSelectedV0Daughter cfg (tracks (posTrackId v2)) 1 (tpcNSigmaPi (tracks (posTrackId v2)))"
    by (simp_all add: candidateSelected_def)
  show ?thesis
    using r by (simp add: seStep_def Let_def s) blast
qed

lemma seStep_accepted:
  "sePairAccepted cfg collision tracks p \<Longrightarrow>
   seStep cfg collision tracks st p =
     (let st1 = (if globalIndex (fst p) \<notin> set (v0indexes st)
                 then st\<lparr>v0indexes := v0indexes st @ [narrow32 (globalIndex (fst p))]\<rparr>
                 else st);
          st2 = st1\<lparr>allConditionsMet := True, lastPair := Some p\<rparr>
      in if \<not> selectTWOKsOnly cfg then st2\<lparr>filled := filled st2 @ [p]\<rparr> else st2)"
  by (cases p) (simp add: sePairAccepted_def candidateSelected_def seStep_def Let_def)

lemma seStep_rejected:
  "\<not> sePairAccepted cfg collision tracks p \<Longrightarrow>
   filled (seStep cfg collision tracks st p) = filled st \<and>
   lastPair (seStep cfg collision tracks st p) = lastPair st \<and>
   allConditionsMet (seStep cfg collision tracks st p) = allConditionsMet st"
  by (cases p) (auto simp add: sePairAccepted_def candidateSelected_def seStep_def Let_def)

lemma seStep_filled:
  "filled (seStep cfg collision tracks st p) =
     filled st @ (if sePairAccepted cfg collision tracks p \<and> \<not> selectTWOKsOnly cfg then [p] else [])"
proof (cases "sePairAccepted cfg collision tracks p")
  case True
  then show ?thesis by (simp add: seStep_accepted Let_def)
next
  case False
  then show ?thesis by (simp add: seStep_rejected)
qed

lemma seStep_lastPair:
  "lastPair (seStep cfg collision tracks st p) =
     (if sePairAccepted cfg collision tracks p then Some p else lastPair st)"
proof (cases "sePairAccepted cfg collision tracks p")
  case True
  then show ?thesis by (simp add: seStep_accepted Let_def)
next
  case False
  then show ?thesis by (simp add: seStep_rejected)
qed

lemma foldl_seStep_filled:
  "filled (foldl (seStep cfg collision tracks) st ps) =
     filled st @ (if selectTWOKsOnly cfg then [] else filter (sePairAccepted cfg collision tracks) ps)"
  by (induction ps arbitrary: st) (simp_all add: seStep_filled)

lemma foldl_seStep_lastPair:
  assumes "lastPair (foldl (seStep cfg collision tracks) st ps) = Some p"
  shows "lastPair st = Some p \<or> (p \<in> set ps \<and> sePairAccepted cfg collision tracks p)"
  using assms
proof (induction ps arbitrary: st)
  case Nil
  then show ?case by simp
next
  case (Cons q ps)
  from Cons.IH [OF Cons.prems [simplified]]
  show ?case
    by (auto simp add: seStep_lastPair split: if_splits)
qed

lemma processSE_cases:
  "processSE cfg collision tracks V0s = [] \<or>
   (selectTWOKsOnly cfg \<and> (\<exists>p \<in> set (List.product V0s V0s).
       sePairAccepted cfg collision tracks p \<and> processSE cfg collision tracks V0s = [p])) \<or>
   (\<not> selectTWOKsOnly cfg \<and>
    processSE cfg collision tracks V0s =
      filter (sePairAccepted cfg collision tracks) (List.product V0s V0s))"
proof (cases "selectTWOKsOnly cfg")
  case True
  show ?thesis
  proof (cases "lastPair (foldl (seStep cfg collision tracks) initialSEState (List.product V0s V0s))")
    case None
    with True show ?thesis
      by (simp add: processSE_def Let_def foldl_seStep_filled initialSEState_def)
  next
    case (Some p)
    from foldl_seStep_lastPair [OF Some]
    have "p \<in> set (List.product V0s V0s) \<and> sePairAccepted cfg collision tracks p"
      by (simp add: initialSEState_def)
    with True Some show ?thesis
      by (auto simp add: processSE_def Let_def foldl_seStep_filled initialSEState_def)
  qed
next
  case False
  then show ?thesis
    by (simp add: processSE_def Let_def foldl_seStep_filled initialSEState_def)
qed

lemma processSE_accepted:
  assumes "p \<in> set (processSE cfg collision tracks V0s)"
  shows "sePairAccepted cfg collision tracks p"
  using processSE_cases [of cfg collision tracks V0s] assms by auto

text \<open>
  The mixed-event loops hand on accepted pairs only.
\<close>

lemma mePairs_filter:
  "mePairs cfg tracks c1 c2 ps = filter (mePairAccepted cfg tracks c1 c2) ps"
proof (induction ps)
  case Nil
  show ?case by simp
next
  case (Cons p ps)
  obtain t1 t2 where p: "p = (t1, t2)" by (cases p)
  show ?case
  proof (cases "mePairAccepted cfg tracks c1 c2 (t1, t2)")
    case True
    then show ?thesis
      by (simp add: p Cons.IH mePairAccepted_def candidateSelected_def Let_def)
  next
    case False
    then have "\<not> selectionV0 cfg c1 t1 \<or> \<not> selectionV0 cfg c2 t2 \<or>
        posTrackId t1 = posTrackId t2 \<or> negTrackId t1 = negTrackId t2 \<or>
        \<not> isSelectedV0Daughter cfg (tracks (posTrackId t1)) 1 (tpcNSigmaPi (tracks (posTrackId t1))) \<or>
        \<not> isSelectedV0Daughter cfg (tracks (posTrackId t2)) 1 (tpcNSigmaPi (tracks (posTrackId t2))) \<or>
        \<not> isSelectedV0Daughter cfg (tracks (negTrackId t1)) (-1) (tpcNSigmaPi (tracks (negTrackId t1))) \<or>
        \<not> isSelectedV0Daughter cfg (tracks (negTrackId t2)) (-1) (tpcNSigmaPi (tracks (negTrackId t2)))"
      by (simp add: mePairAccepted_def candidateSelected_def) blast
    then have "mePairs cfg tracks c1 c2 ((t1, t2) # ps) = mePairs cfg tracks c1 c2 ps"
      by (simp add: Let_def) blast
    with False show ?thesis by (simp add: p Cons.IH)
  qed
qed

lemma mePairs_accepted:
  assumes "p \<in> set (mePairs cfg tracks c1 c2 ps)"
  shows "mePairAccepted cfg tracks c1 c2 p"
  using assms by (simp add: mePairs_filter)

lemma processMEderived_accepted:
  assumes "p \<in> set (processMEderived cfg tracks v0s cs)"
  shows "\<exists>c1 c2. mePairAccepted cfg tracks c1 c2 p"
  using assms
proof (induction cs)
  case Nil
  then show ?case by simp
next
  case (Cons c cs)
  obtain c1 c2 where c: "c = (c1, c2)" by (cases c)
  from Cons.prems
  have "p \<in> set (processMEderived cfg tracks v0s cs) \<or>
        p \<in> set (mePairs cfg tracks c1 c2
          (List.product (sliceBy v0s (collisionIndex c1)) (sliceBy v0s (collisionIndex c2))))"
    by (auto simp add: c Let_def split: if_splits)
  then show ?case
    using Cons.IH mePairs_accepted by blast
qed

text \<open>
  A selected candidate has a positive daughter of non-negative and a negative daughter of
  non-positive charge sign, so that no track of non-zero sign is the positive daughter of
  one selected candidate and the negative daughter of another.
\<close>

lemma selected_signs:
  assumes "candidateSelected cfg collision tracks v"
  shows "0 \<le> sign (tracks (posTrackId v)) \<and> sign (tracks (negTrackId v)) \<le> 0"
  using assms
  by (auto simp add: candidateSelected_def isSelectedV0Daughter_def split: if_splits)

lemma selected_no_cross_share:
  assumes "candidateSelected cfg c1 tracks v1" and "candidateSelected cfg c2 tracks v2"
    and "\<forall>i. sign (tracks i) \<noteq> 0"
  shows "posTrackId v1 \<noteq> negTrackId v2 \<and> negTrackId v1 \<noteq> posTrackId v2"
proof -
  have s: "sign (tracks (posTrackId v1)) \<noteq> 0" "sign (tracks (negTrackId v2)) \<noteq> 0"
    "sign (tracks (negTrackId v1)) \<noteq> 0" "sign (tracks (posTrackId v2)) \<noteq> 0"
    using assms(3) by simp_all
  with selected_signs [OF assms(1)] selected_signs [OF assms(2)]
  have "0 < sign (tracks (posTrackId v1))" "sign (tracks (negTrackId v2)) < 0"
    "sign (tracks (negTrackId v1)) < 0" "0 < sign (tracks (posTrackId v2))"
    by linarith+
  then show ?thesis by auto
qed

text \<open>
  Claim C1. When the charge sign of every track is not zero (the framework's sign column
  is 1 or -1), a pair of candidates that share a daughter track, in whichever roles, is
  handed to \<^verbatim>\<open>fillInvMass\<close> neither by \<^verbatim>\<open>processSE\<close> nor by
  \<^verbatim>\<open>processMEderived\<close>.
\<close>

theorem shared_track_excluded:
  assumes "\<forall>i. sign (tracks i) \<noteq> 0" and "shareTrack v1 v2"
  shows "(v1, v2) \<notin> set (processSE cfg collision tracks V0s) \<and>
         (v1, v2) \<notin> set (processMEderived cfg tracks v0s collisionPairs)"
proof (intro conjI notI)
  assume "(v1, v2) \<in> set (processSE cfg collision tracks V0s)"
  then have a: "sePairAccepted cfg collision tracks (v1, v2)"
    by (rule processSE_accepted)
  then have "posTrackId v1 \<noteq> negTrackId v2 \<and> negTrackId v1 \<noteq> posTrackId v2"
    using assms(1) selected_no_cross_share [of cfg collision tracks v1 collision v2]
    by (simp add: sePairAccepted_def)
  with a assms(2) show False
    by (simp add: sePairAccepted_def shareTrack_def)
next
  assume "(v1, v2) \<in> set (processMEderived cfg tracks v0s collisionPairs)"
  then obtain c1 c2 where a: "mePairAccepted cfg tracks c1 c2 (v1, v2)"
    using processMEderived_accepted by blast
  then have "posTrackId v1 \<noteq> negTrackId v2 \<and> negTrackId v1 \<noteq> posTrackId v2"
    using assms(1) selected_no_cross_share [of cfg c1 tracks v1 c2 v2]
    by (simp add: mePairAccepted_def)
  with a assms(2) show False
    by (simp add: mePairAccepted_def shareTrack_def)
qed

text \<open>
  The bookkeeping of the loop after all pairs: the recorded indices, whether a pair was
  accepted, and the last accepted pair.
\<close>

lemma narrow32_id: "- (2 ^ 31) \<le> i \<Longrightarrow> i < 2 ^ 31 \<Longrightarrow> narrow32 i = i"
  by (simp add: narrow32_def)

lemma sePairAccepted_bothSelected:
  "sePairAccepted cfg collision tracks p \<Longrightarrow> bothSelected cfg collision tracks p"
  by (simp add: sePairAccepted_def bothSelected_def)

lemma seStep_v0indexes:
  "v0indexes (seStep cfg collision tracks st p) =
     (if bothSelected cfg collision tracks p then pushIndex (v0indexes st) (globalIndex (fst p))
      else v0indexes st)"
proof (cases "bothSelected cfg collision tracks p")
  case False
  obtain a b where p: "p = (a, b)" by (cases p)
  from False have "\<not> (candidateSelected cfg collision tracks a \<and>
      candidateSelected cfg collision tracks b)"
    by (simp add: bothSelected_def p)
  then have "seStep cfg collision tracks st (a, b) = st"
    by (rule seStep_not_selected)
  with False show ?thesis by (simp add: p)
next
  case True
  show ?thesis
  proof (cases "sePairAccepted cfg collision tracks p")
    case True
    then show ?thesis
      using sePairAccepted_bothSelected [OF True]
      by (simp add: seStep_accepted pushIndex_def Let_def)
  next
    case False
    with True show ?thesis
      by (cases p) (simp add: bothSelected_def seStep_selected pushIndex_def)
  qed
qed

lemma foldl_seStep_v0indexes:
  "v0indexes (foldl (seStep cfg collision tracks) st ps) =
     foldl pushIndex (v0indexes st)
       (map (\<lambda>p. globalIndex (fst p)) (filter (bothSelected cfg collision tracks) ps))"
  by (induction ps arbitrary: st) (simp_all add: seStep_v0indexes)

lemma seStep_allConditionsMet:
  "allConditionsMet (seStep cfg collision tracks st p) =
     (allConditionsMet st \<or> sePairAccepted cfg collision tracks p)"
proof (cases "sePairAccepted cfg collision tracks p")
  case True
  then show ?thesis by (simp add: seStep_accepted Let_def)
next
  case False
  then show ?thesis by (simp add: seStep_rejected)
qed

lemma foldl_seStep_allConditionsMet:
  "allConditionsMet (foldl (seStep cfg collision tracks) st ps) =
     (allConditionsMet st \<or> filter (sePairAccepted cfg collision tracks) ps \<noteq> [])"
  by (induction ps arbitrary: st) (auto simp add: seStep_allConditionsMet)

lemma foldl_seStep_last:
  "lastPair (foldl (seStep cfg collision tracks) st ps) =
     (if filter (sePairAccepted cfg collision tracks) ps = [] then lastPair st
      else Some (last (filter (sePairAccepted cfg collision tracks) ps)))"
  by (induction ps arbitrary: st) (simp_all add: seStep_lastPair)

lemma foldl_pushIndex:
  assumes "\<forall>i \<in> set is. - (2 ^ 31) \<le> i \<and> i < 2 ^ 31" and "distinct ys"
  shows "set (foldl pushIndex ys is) = set ys \<union> set is \<and> distinct (foldl pushIndex ys is)"
  using assms
proof (induction "is" arbitrary: ys)
  case Nil
  then show ?case by simp
next
  case (Cons i "is")
  from Cons.prems have n: "narrow32 i = i" by (simp add: narrow32_id)
  have d: "distinct (pushIndex ys i)" and s: "set (pushIndex ys i) = insert i (set ys)"
    using Cons.prems(2) by (auto simp add: pushIndex_def n)
  from Cons.IH [OF _ d] Cons.prems(1) show ?case
    by (simp add: s)
qed

lemma length_foldl_pushIndex:
  assumes "\<forall>i \<in> set is. - (2 ^ 31) \<le> i \<and> i < 2 ^ 31"
  shows "length (foldl pushIndex [] is) = card (set is)"
proof -
  from foldl_pushIndex [OF assms, of "[]"]
  have "set (foldl pushIndex [] is) = set is" "distinct (foldl pushIndex [] is)" by simp_all
  then show ?thesis by (metis distinct_card)
qed

lemma selected_indexes:
  "set (map (\<lambda>p. globalIndex (fst p))
         (filter (bothSelected cfg collision tracks) (List.product V0s V0s))) =
   globalIndex ` set (filter (candidateSelected cfg collision tracks) V0s)"
  by (auto simp add: bothSelected_def image_iff) force

lemma card_selected_indexes:
  assumes "distinct (map globalIndex V0s)"
  shows "card (globalIndex ` set (filter (candidateSelected cfg collision tracks) V0s)) =
         length (filter (candidateSelected cfg collision tracks) V0s)"
proof -
  from assms have "distinct (map globalIndex (filter (candidateSelected cfg collision tracks) V0s))"
    by (simp add: distinct_map_filter)
  then show ?thesis
    by (metis distinct_card length_map set_map)
qed

lemma count_distinct: "distinct xs \<Longrightarrow> count_list xs x = (if x \<in> set xs then 1 else 0)"
  by (induction xs) auto

lemma processSE_all_pairs:
  assumes "eventselection cfg collision" and "\<not> (requireRCTFlagChecker cfg \<and> \<not> rctChecker collision)"
    and "\<not> selectTWOKsOnly cfg"
  shows "processSE cfg collision tracks V0s =
     filter (sePairAccepted cfg collision tracks) (List.product V0s V0s)"
  using assms by (auto simp add: processSE_def Let_def foldl_seStep_filled initialSEState_def)

lemma processSE_two_only:
  assumes "eventselection cfg collision" and "\<not> (requireRCTFlagChecker cfg \<and> \<not> rctChecker collision)"
    and "selectTWOKsOnly cfg" and "distinct (map globalIndex V0s)"
    and "\<forall>v \<in> set V0s. - (2 ^ 31) \<le> globalIndex v \<and> globalIndex v < 2 ^ 31"
  shows "processSE cfg collision tracks V0s =
     (if length (filter (candidateSelected cfg collision tracks) V0s) = 2 \<and>
         filter (sePairAccepted cfg collision tracks) (List.product V0s V0s) \<noteq> []
      then [last (filter (sePairAccepted cfg collision tracks) (List.product V0s V0s))]
      else [])"
proof -
  let ?is = "map (\<lambda>p. globalIndex (fst p))
         (filter (bothSelected cfg collision tracks) (List.product V0s V0s))"
  have "\<forall>i \<in> set ?is. - (2 ^ 31) \<le> i \<and> i < 2 ^ 31"
    using assms(5) by (auto simp add: selected_indexes)
  then have "length (foldl pushIndex [] ?is) =
      length (filter (candidateSelected cfg collision tracks) V0s)"
    by (simp only: length_foldl_pushIndex selected_indexes card_selected_indexes [OF assms(4)])
  then have l: "length (v0indexes (foldl (seStep cfg collision tracks) initialSEState
      (List.product V0s V0s))) = length (filter (candidateSelected cfg collision tracks) V0s)"
    by (simp add: foldl_seStep_v0indexes initialSEState_def)
  show ?thesis
    using assms(1-3) unfolding processSE_def Let_def l
    by (auto simp add: foldl_seStep_filled foldl_seStep_allConditionsMet
        foldl_seStep_last initialSEState_def)
qed

lemma length_two:
  assumes "length xs = 2"
  shows "\<exists>x y. xs = [x, y]"
proof -
  from assms obtain x ys where a: "xs = x # ys" by (cases xs) auto
  with assms have "length ys = 1" by simp
  then obtain y zs where b: "ys = y # zs" by (cases ys) auto
  with \<open>length ys = 1\<close> have "zs = []" by simp
  with a b show ?thesis by simp
qed

lemma length_subset_singleton:
  assumes "distinct xs" and "set xs \<subseteq> {q}"
  shows "length xs \<le> 1"
proof -
  have "card (set xs) \<le> card {q}"
    using assms(2) by (intro card_mono) simp_all
  with assms(1) show ?thesis by (simp add: distinct_card)
qed

lemma accepted_pairs_two:
  assumes "distinct (map globalIndex V0s)"
    and "length (filter (candidateSelected cfg collision tracks) V0s) = 2"
  shows "length (filter (sePairAccepted cfg collision tracks) (List.product V0s V0s)) \<le> 1"
proof -
  let ?acc = "filter (sePairAccepted cfg collision tracks) (List.product V0s V0s)"
  from length_two [OF assms(2)]
  obtain x y where xy: "filter (candidateSelected cfg collision tracks) V0s = [x, y]"
    by blast
  have mem: "fst p \<in> {x, y} \<and> snd p \<in> {x, y} \<and> globalIndex (fst p) < globalIndex (snd p)"
    if "p \<in> set ?acc" for p
  proof -
    from that have a: "sePairAccepted cfg collision tracks p" and
      m: "fst p \<in> set V0s" "snd p \<in> set V0s"
      by (auto simp add: mem_Times_iff)
    from a m have "fst p \<in> set (filter (candidateSelected cfg collision tracks) V0s)"
      "snd p \<in> set (filter (candidateSelected cfg collision tracks) V0s)"
      by (simp_all add: sePairAccepted_def)
    with a show ?thesis by (simp add: xy sePairAccepted_def)
  qed
  have s: "set ?acc \<subseteq> {if globalIndex x < globalIndex y then (x, y) else (y, x)}"
  proof
    fix p assume "p \<in> set ?acc"
    from mem [OF this] show "p \<in> {if globalIndex x < globalIndex y then (x, y) else (y, x)}"
      by (cases p) auto
  qed
  from assms(1) have "distinct V0s"
    by (simp add: distinct_map)
  then have d: "distinct ?acc"
    by (simp add: distinct_product)
  show ?thesis
    by (rule length_subset_singleton [OF d s])
qed

lemma singleton_last: "length xs \<le> 1 \<Longrightarrow> xs \<noteq> [] \<Longrightarrow> [last xs] = xs"
  by (cases xs) auto

text \<open>
  With distinct global indices (that fit 32 bits when \<^verbatim>\<open>selectTWOKsOnly\<close> is on),
  \<^verbatim>\<open>processSE\<close> hands on the accepted pairs of a selected event, in the order of the
  loop, and with \<^verbatim>\<open>selectTWOKsOnly\<close> only when exactly two candidates are selected.
\<close>

lemma processSE_characterised:
  assumes "distinct (map globalIndex V0s)"
    and "selectTWOKsOnly cfg \<longrightarrow>
         (\<forall>v \<in> set V0s. - (2 ^ 31) \<le> globalIndex v \<and> globalIndex v < 2 ^ 31)"
  shows "processSE cfg collision tracks V0s =
     (if eventselection cfg collision \<and> \<not> (requireRCTFlagChecker cfg \<and> \<not> rctChecker collision) \<and>
         (selectTWOKsOnly cfg \<longrightarrow>
            length (filter (candidateSelected cfg collision tracks) V0s) = 2)
      then filter (sePairAccepted cfg collision tracks) (List.product V0s V0s)
      else [])"
proof (cases "eventselection cfg collision \<and> \<not> (requireRCTFlagChecker cfg \<and> \<not> rctChecker collision)")
  case False
  then have "processSE cfg collision tracks V0s = []"
    by (auto simp add: processSE_def)
  with False show ?thesis by auto
next
  case ok: True
  then have ok1: "eventselection cfg collision"
    and ok2: "\<not> (requireRCTFlagChecker cfg \<and> \<not> rctChecker collision)"
    by simp_all
  show ?thesis
  proof (cases "selectTWOKsOnly cfg")
    case False
    from processSE_all_pairs [OF ok1 ok2 False, of tracks V0s] ok False
    show ?thesis by simp
  next
    case True
    with assms(2) have r: "\<forall>v \<in> set V0s. - (2 ^ 31) \<le> globalIndex v \<and> globalIndex v < 2 ^ 31"
      by simp
    note p = processSE_two_only [OF ok1 ok2 True assms(1) r, of tracks]
    show ?thesis
    proof (cases "length (filter (candidateSelected cfg collision tracks) V0s) = 2")
      case two: True
      show ?thesis
      proof (cases "filter (sePairAccepted cfg collision tracks) (List.product V0s V0s) = []")
        case True
        with ok True two show ?thesis unfolding p by simp
      next
        case False
        from singleton_last [OF accepted_pairs_two [OF assms(1) two] False]
        show ?thesis
          unfolding p using ok True two False by simp
      qed
    next
      case False
      with ok True show ?thesis unfolding p by simp
    qed
  qed
qed

text \<open>
  Claim C2, as amended. Every pair that \<^verbatim>\<open>processSE\<close> hands on has a second global
  index above the first: it is no self-pair and its reverse is not handed on. With distinct
  global indices (that fit 32 bits when \<^verbatim>\<open>selectTWOKsOnly\<close> is on), a pair of candidates
  of the table is handed on exactly once when the event passes the event selection and the
  run-condition check, the pair is accepted (both candidates selected, second index above
  the first, different positive daughters, different negative daughters, angular-separation
  cut passed) and, with \<^verbatim>\<open>selectTWOKsOnly\<close> on, exactly two candidates of the event are
  selected; otherwise it is not handed on.
\<close>

theorem same_event_pairs_produced:
  "(\<forall>p \<in> set (processSE cfg collision tracks V0s).
      globalIndex (fst p) < globalIndex (snd p) \<and> fst p \<noteq> snd p \<and>
      (snd p, fst p) \<notin> set (processSE cfg collision tracks V0s)) \<and>
   (distinct (map globalIndex V0s) \<and>
    (selectTWOKsOnly cfg \<longrightarrow>
       (\<forall>v \<in> set V0s. - (2 ^ 31) \<le> globalIndex v \<and> globalIndex v < 2 ^ 31)) \<longrightarrow>
    (\<forall>a \<in> set V0s. \<forall>b \<in> set V0s.
       count_list (processSE cfg collision tracks V0s) (a, b) =
         (if eventselection cfg collision \<and>
             \<not> (requireRCTFlagChecker cfg \<and> \<not> rctChecker collision) \<and>
             (selectTWOKsOnly cfg \<longrightarrow>
                length (filter (candidateSelected cfg collision tracks) V0s) = 2) \<and>
             sePairAccepted cfg collision tracks (a, b)
          then 1 else 0)))"
proof (intro conjI ballI impI)
  fix p assume p: "p \<in> set (processSE cfg collision tracks V0s)"
  then have "sePairAccepted cfg collision tracks p" by (rule processSE_accepted)
  then show lt: "globalIndex (fst p) < globalIndex (snd p)"
    by (simp add: sePairAccepted_def)
  then show "fst p \<noteq> snd p" by auto
  show "(snd p, fst p) \<notin> set (processSE cfg collision tracks V0s)"
  proof
    assume "(snd p, fst p) \<in> set (processSE cfg collision tracks V0s)"
    then have "sePairAccepted cfg collision tracks (snd p, fst p)" by (rule processSE_accepted)
    then have "globalIndex (snd p) < globalIndex (fst p)" by (simp add: sePairAccepted_def)
    with lt show False by simp
  qed
next
  fix a b
  assume h: "distinct (map globalIndex V0s) \<and>
    (selectTWOKsOnly cfg \<longrightarrow>
       (\<forall>v \<in> set V0s. - (2 ^ 31) \<le> globalIndex v \<and> globalIndex v < 2 ^ 31))"
    and ab: "a \<in> set V0s" "b \<in> set V0s"
  from h have h1: "distinct (map globalIndex V0s)"
    and h2: "selectTWOKsOnly cfg \<longrightarrow>
       (\<forall>v \<in> set V0s. - (2 ^ 31) \<le> globalIndex v \<and> globalIndex v < 2 ^ 31)"
    by simp_all
  from h1 have "distinct V0s" by (simp add: distinct_map)
  then have d: "distinct (List.product V0s V0s)"
    by (simp add: distinct_product)
  note c = processSE_characterised [OF h1 h2, of collision tracks]
  have f: "count_list (filter (sePairAccepted cfg collision tracks) (List.product V0s V0s)) (a, b) =
      (if sePairAccepted cfg collision tracks (a, b) then 1 else 0)"
    using d ab by (simp add: count_distinct)
  show "count_list (processSE cfg collision tracks V0s) (a, b) =
         (if eventselection cfg collision \<and>
             \<not> (requireRCTFlagChecker cfg \<and> \<not> rctChecker collision) \<and>
             (selectTWOKsOnly cfg \<longrightarrow>
                length (filter (candidateSelected cfg collision tracks) V0s) = 2) \<and>
             sePairAccepted cfg collision tracks (a, b)
          then 1 else 0)"
  proof (cases "eventselection cfg collision \<and>
             \<not> (requireRCTFlagChecker cfg \<and> \<not> rctChecker collision) \<and>
             (selectTWOKsOnly cfg \<longrightarrow>
                length (filter (candidateSelected cfg collision tracks) V0s) = 2)")
    case True
    then have "processSE cfg collision tracks V0s =
        filter (sePairAccepted cfg collision tracks) (List.product V0s V0s)"
      unfolding c by simp
    with f True show ?thesis by simp
  next
    case False
    then have "processSE cfg collision tracks V0s = []"
      unfolding c by auto
    with False show ?thesis by auto
  qed
qed

section \<open>The same-event entries of an event\<close>

text \<open>
  Claim C7, as amended. With at least one reference-axis switch enabled, a call of
  \<^verbatim>\<open>fillInvMass\<close> for a same-event pair records in the same-event sparse exactly one
  entry, with the multiplicity, the mother's transverse momentum and mass, the cosine of the
  active policy and the azimuthal angle, when the absolute rapidity of the mother is below
  0.5, and none otherwise. The same-event entries of an event are these entries of the pairs
  that \<^verbatim>\<open>processSE\<close> hands on, in order. With distinct global indices (that fit 32 bits
  when \<^verbatim>\<open>selectTWOKsOnly\<close> is on), the pairs handed on are the accepted pairs of an
  event that passes the event selection and the run-condition check and, with
  \<^verbatim>\<open>selectTWOKsOnly\<close> on, has exactly two selected candidates; no pair is handed on
  otherwise.
\<close>

theorem primary_entry_iff_rapidity:
  assumes "activateTHnSparseCosThStarHelicity cfg \<or> activateTHnSparseCosThStarProduction cfg \<or>
           activateTHnSparseCosThStarBeam cfg \<or> activateTHnSparseCosThStarRandom cfg"
  shows "filter (\<lambda>f. hist f = h3glueInvMassDS)
           (fillInvMass cfg rn g mother multiplicity daughter1 daughter2 False) =
         (if \<bar>Rapidity mother\<bar> < 0.5
          then [Fill h3glueInvMassDS multiplicity (Pt mother) (M mother)
                  (primaryCosThetaStar cfg g mother daughter1) (angle_phi mother daughter1)]
          else []) \<and>
         filter (\<lambda>f. hist f = h3glueInvMassDS)
           (processSEfills cfg rn' g' collision tracks V0s) =
         concat (map (\<lambda>(k, p).
             if \<bar>Rapidity (motherOf cfg p)\<bar> < 0.5
             then [Fill h3glueInvMassDS (multiplicityOf cfg collision) (Pt (motherOf cfg p))
                     (M (motherOf cfg p))
                     (primaryCosThetaStar cfg (g' k) (motherOf cfg p) (daughterOf cfg (fst p)))
                     (angle_phi (motherOf cfg p) (daughterOf cfg (fst p)))]
             else [])
           (enumerate 0 (processSE cfg collision tracks V0s))) \<and>
         (distinct (map globalIndex V0s) \<and>
          (selectTWOKsOnly cfg \<longrightarrow>
             (\<forall>v \<in> set V0s. - (2 ^ 31) \<le> globalIndex v \<and> globalIndex v < 2 ^ 31)) \<longrightarrow>
          processSE cfg collision tracks V0s =
            (if eventselection cfg collision \<and>
                \<not> (requireRCTFlagChecker cfg \<and> \<not> rctChecker collision) \<and>
                (selectTWOKsOnly cfg \<longrightarrow>
                   length (filter (candidateSelected cfg collision tracks) V0s) = 2)
             then filter (sePairAccepted cfg collision tracks) (List.product V0s V0s)
             else []))"
proof (intro conjI impI)
  show "filter (\<lambda>f. hist f = h3glueInvMassDS)
           (fillInvMass cfg rn g mother multiplicity daughter1 daughter2 False) =
         (if \<bar>Rapidity mother\<bar> < 0.5
          then [Fill h3glueInvMassDS multiplicity (Pt mother) (M mother)
                  (primaryCosThetaStar cfg g mother daughter1) (angle_phi mother daughter1)]
          else [])"
    using assms by (rule fillInvMass_DS)
  show "filter (\<lambda>f. hist f = h3glueInvMassDS)
           (processSEfills cfg rn' g' collision tracks V0s) =
         concat (map (\<lambda>(k, p).
             if \<bar>Rapidity (motherOf cfg p)\<bar> < 0.5
             then [Fill h3glueInvMassDS (multiplicityOf cfg collision) (Pt (motherOf cfg p))
                     (M (motherOf cfg p))
                     (primaryCosThetaStar cfg (g' k) (motherOf cfg p) (daughterOf cfg (fst p)))
                     (angle_phi (motherOf cfg p) (daughterOf cfg (fst p)))]
             else [])
           (enumerate 0 (processSE cfg collision tracks V0s)))"
    unfolding processSEfills_def filter_concat_map
    by (simp only: case_prod_unfold fillInvMass_DS [OF assms])
next
  assume h: "distinct (map globalIndex V0s) \<and>
          (selectTWOKsOnly cfg \<longrightarrow>
             (\<forall>v \<in> set V0s. - (2 ^ 31) \<le> globalIndex v \<and> globalIndex v < 2 ^ 31))"
  then have h1: "distinct (map globalIndex V0s)"
    and h2: "selectTWOKsOnly cfg \<longrightarrow>
             (\<forall>v \<in> set V0s. - (2 ^ 31) \<le> globalIndex v \<and> globalIndex v < 2 ^ 31)"
    by simp_all
  show "processSE cfg collision tracks V0s =
            (if eventselection cfg collision \<and>
                \<not> (requireRCTFlagChecker cfg \<and> \<not> rctChecker collision) \<and>
                (selectTWOKsOnly cfg \<longrightarrow>
                   length (filter (candidateSelected cfg collision tracks) V0s) = 2)
             then filter (sePairAccepted cfg collision tracks) (List.product V0s V0s)
             else [])"
    by (rule processSE_characterised [OF h1 h2])
qed

section \<open>The pairing at concrete inputs\<close>

lemma example_selectionV0:
  "selectionV0 defaultConfig exampleCollision (exampleV0 i pos neg)"
  by (simp add: selectionV0_def defaultConfig_def exampleCollision_def exampleV0_def)

lemma example_daughters:
  "isSelectedV0Daughter defaultConfig (exampleTracks i) c 0 = (if even i then 0 \<le> c else c \<le> 0)"
  by (simp add: isSelectedV0Daughter_def defaultConfig_def exampleTracks_def not_less)

lemma example_selected:
  "even pos \<Longrightarrow> odd neg \<Longrightarrow>
   candidateSelected defaultConfig exampleCollision exampleTracks (exampleV0 i pos neg)"
proof -
  assume a: "even pos" "odd neg"
  have f: "posTrackId (exampleV0 i pos neg) = pos" "negTrackId (exampleV0 i pos neg) = neg"
    by (simp_all add: exampleV0_def)
  have t: "tpcNSigmaPi (exampleTracks j) = 0" for j
    by (simp add: exampleTracks_def)
  show ?thesis
    unfolding candidateSelected_def f t
    using a by (simp add: example_selectionV0 example_daughters)
qed

lemma example_fields:
  "globalIndex exampleK0a = 0" "globalIndex exampleK0b = 1" "globalIndex exampleK0c = 2"
  "posTrackId exampleK0a = 0" "posTrackId exampleK0b = 2" "posTrackId exampleK0c = 0"
  "negTrackId exampleK0a = 1" "negTrackId exampleK0b = 3" "negTrackId exampleK0c = 5"
  by (simp_all add: exampleK0a_def exampleK0b_def exampleK0c_def exampleV0_def)

lemma example_candidates:
  "candidateSelected defaultConfig exampleCollision exampleTracks exampleK0a"
  "candidateSelected defaultConfig exampleCollision exampleTracks exampleK0b"
  "candidateSelected defaultConfig exampleCollision exampleTracks exampleK0c"
  by (simp_all add: exampleK0a_def exampleK0b_def exampleK0c_def example_selected)

lemma example_angsep: "applyAngSep defaultConfig v1 v2"
  by (simp add: applyAngSep_def defaultConfig_def Let_def)

lemma example_pairs:
  "sePairAccepted defaultConfig exampleCollision exampleTracks (exampleK0a, exampleK0b)"
  "\<not> sePairAccepted defaultConfig exampleCollision exampleTracks (exampleK0a, exampleK0a)"
  "\<not> sePairAccepted defaultConfig exampleCollision exampleTracks (exampleK0b, exampleK0a)"
  "\<not> sePairAccepted defaultConfig exampleCollision exampleTracks (exampleK0b, exampleK0b)"
  "\<not> sePairAccepted defaultConfig exampleCollision exampleTracks (exampleK0a, exampleK0c)"
  "\<not> sePairAccepted defaultConfig exampleCollision exampleTracks (exampleK0c, exampleK0a)"
  "\<not> sePairAccepted defaultConfig exampleCollision exampleTracks (exampleK0c, exampleK0c)"
  by (simp_all add: sePairAccepted_def example_candidates example_fields example_angsep)

lemma example_event:
  "eventselection defaultConfig exampleCollision" "rctChecker exampleCollision"
  "selectTWOKsOnly defaultConfig"
  by (simp_all add: eventselection_def defaultConfig_def exampleCollision_def)

text \<open>
  The exclusion of shared tracks at two selected candidates with one positive daughter,
  in one event and in two events.
\<close>

theorem shared_track_excluded_witness:
  "(\<forall>i. sign (exampleTracks i) \<noteq> 0) \<and>
   shareTrack exampleK0a exampleK0c \<and>
   (exampleK0a, exampleK0c) \<notin>
     set (processSE defaultConfig exampleCollision exampleTracks [exampleK0a, exampleK0c]) \<and>
   shareTrack exampleK0a exampleK0d \<and>
   (exampleK0a, exampleK0d) \<notin>
     set (processMEderived defaultConfig exampleTracks [exampleK0a, exampleK0d]
            [(exampleCollision, exampleCollision2)])"
proof -
  have s: "\<forall>i. sign (exampleTracks i) \<noteq> 0"
    by (simp add: exampleTracks_def)
  have c: "shareTrack exampleK0a exampleK0c"
    by (simp add: shareTrack_def example_fields)
  have d: "shareTrack exampleK0a exampleK0d"
    by (simp add: shareTrack_def example_fields exampleK0d_def exampleV0_def)
  from shared_track_excluded [OF s c, of defaultConfig exampleCollision
      "[exampleK0a, exampleK0c]"]
    shared_track_excluded [OF s d, of defaultConfig exampleCollision "[exampleK0a, exampleK0d]"
      "[exampleK0a, exampleK0d]" "[(exampleCollision, exampleCollision2)]"]
  show ?thesis using s c d by blast
qed

lemma candidateSelected_switches:
  "candidateSelected (cfg\<lparr>selectTWOKsOnly := t\<rparr>) collision tracks v =
     candidateSelected cfg collision tracks v"
  "candidateSelected (cfg\<lparr>applyAngSepCut := t\<rparr>) collision tracks v =
     candidateSelected cfg collision tracks v"
  by (simp_all add: candidateSelected_def selectionV0_def isSelectedV0Daughter_def Let_def
      split del: if_split cong del: if_weak_cong)

lemma candidateSelected_eta:
  "candidateSelected cfg collision tracks (v\<lparr>eta := x\<rparr>) = candidateSelected cfg collision tracks v"
  by (simp add: candidateSelected_def selectionV0_def Let_def
      split del: if_split cong del: if_weak_cong)

lemma example_more_fields:
  "globalIndex exampleK0e = 4" "posTrackId exampleK0e = 8" "negTrackId exampleK0e = 9"
  "globalIndex exampleK0f = 5" "posTrackId exampleK0f = 10" "negTrackId exampleK0f = 11"
  "eta exampleK0a = 0" "phi exampleK0a = 0" "eta exampleK0f = 1" "phi exampleK0f = 0"
  by (simp_all add: exampleK0a_def exampleK0e_def exampleK0f_def exampleV0_def)

lemma example_more_candidates:
  "candidateSelected defaultConfig exampleCollision exampleTracks exampleK0e"
  "candidateSelected defaultConfig exampleCollision exampleTracks exampleK0f"
  by (simp_all add: exampleK0e_def exampleK0f_def example_selected candidateSelected_eta)

lemma example_config_candidates:
  "candidateSelected pairsConfig exampleCollision exampleTracks v =
     candidateSelected defaultConfig exampleCollision exampleTracks v"
  "candidateSelected angSepConfig exampleCollision exampleTracks v =
     candidateSelected defaultConfig exampleCollision exampleTracks v"
  by (simp_all add: pairsConfig_def angSepConfig_def candidateSelected_switches)

lemma example_config_event:
  "eventselection pairsConfig exampleCollision" "eventselection angSepConfig exampleCollision"
  "\<not> selectTWOKsOnly pairsConfig" "\<not> selectTWOKsOnly angSepConfig"
  by (simp_all add: eventselection_def pairsConfig_def angSepConfig_def defaultConfig_def
      exampleCollision_def)

lemma example_config_angsep:
  "applyAngSep pairsConfig v1 v2"
  "\<not> applyAngSep angSepConfig exampleK0a exampleK0f"
  by (simp_all add: applyAngSep_def pairsConfig_def angSepConfig_def defaultConfig_def
      example_more_fields Let_def)

lemmas example_facts =
  example_candidates example_more_candidates example_config_candidates example_fields
  example_more_fields example_angsep example_config_angsep example_event example_config_event

lemma example_accepted_abe:
  "filter (sePairAccepted defaultConfig exampleCollision exampleTracks)
     (List.product [exampleK0a, exampleK0b, exampleK0e] [exampleK0a, exampleK0b, exampleK0e]) =
   [(exampleK0a, exampleK0b), (exampleK0a, exampleK0e), (exampleK0b, exampleK0e)]"
  "filter (sePairAccepted pairsConfig exampleCollision exampleTracks)
     (List.product [exampleK0a, exampleK0b, exampleK0e] [exampleK0a, exampleK0b, exampleK0e]) =
   [(exampleK0a, exampleK0b), (exampleK0a, exampleK0e), (exampleK0b, exampleK0e)]"
  by (simp_all add: sePairAccepted_def example_facts)

lemma example_accepted_ab:
  "filter (sePairAccepted defaultConfig exampleCollision exampleTracks)
     (List.product [exampleK0a, exampleK0b] [exampleK0a, exampleK0b]) = [(exampleK0a, exampleK0b)]"
  by (simp add: sePairAccepted_def example_facts)

lemma example_accepted_ac:
  "filter (sePairAccepted defaultConfig exampleCollision exampleTracks)
     (List.product [exampleK0a, exampleK0c] [exampleK0a, exampleK0c]) = []"
  "filter (sePairAccepted pairsConfig exampleCollision exampleTracks)
     (List.product [exampleK0a, exampleK0c] [exampleK0a, exampleK0c]) = []"
  by (simp_all add: sePairAccepted_def example_facts)

lemma example_accepted_af:
  "filter (sePairAccepted angSepConfig exampleCollision exampleTracks)
     (List.product [exampleK0a, exampleK0f] [exampleK0a, exampleK0f]) = []"
  by (simp add: sePairAccepted_def example_facts)

lemma example_range:
  "\<forall>v \<in> set [exampleK0a, exampleK0b, exampleK0e]. - (2 ^ 31) \<le> globalIndex v \<and> globalIndex v < 2 ^ 31"
  "\<forall>v \<in> set [exampleK0a, exampleK0b]. - (2 ^ 31) \<le> globalIndex v \<and> globalIndex v < 2 ^ 31"
  "\<forall>v \<in> set [exampleK0a, exampleK0c]. - (2 ^ 31) \<le> globalIndex v \<and> globalIndex v < 2 ^ 31"
  "distinct (map globalIndex [exampleK0a, exampleK0b, exampleK0e])"
  "distinct (map globalIndex [exampleK0a, exampleK0b])"
  "distinct (map globalIndex [exampleK0a, exampleK0c])"
  "distinct (map globalIndex [exampleK0a, exampleK0f])"
  by (simp_all add: example_fields example_more_fields)

lemma example_processSE_ab:
  "processSE defaultConfig exampleCollision exampleTracks [exampleK0a, exampleK0b] =
     [(exampleK0a, exampleK0b)]"
proof -
  note c = processSE_characterised [of "[exampleK0a, exampleK0b]" defaultConfig exampleCollision
      exampleTracks, unfolded example_accepted_ab]
  show ?thesis
    by (subst c) (simp_all add: example_range example_facts)
qed

lemma example_processSE_abe:
  "processSE defaultConfig exampleCollision exampleTracks [exampleK0a, exampleK0b, exampleK0e] = []"
  "processSE pairsConfig exampleCollision exampleTracks [exampleK0a, exampleK0b, exampleK0e] =
     [(exampleK0a, exampleK0b), (exampleK0a, exampleK0e), (exampleK0b, exampleK0e)]"
proof -
  note c = processSE_characterised [of "[exampleK0a, exampleK0b, exampleK0e]" defaultConfig
      exampleCollision exampleTracks, unfolded example_accepted_abe]
  show "processSE defaultConfig exampleCollision exampleTracks
      [exampleK0a, exampleK0b, exampleK0e] = []"
    by (subst c) (simp_all add: example_range example_facts)
  note d = processSE_characterised [of "[exampleK0a, exampleK0b, exampleK0e]" pairsConfig
      exampleCollision exampleTracks, unfolded example_accepted_abe]
  show "processSE pairsConfig exampleCollision exampleTracks
      [exampleK0a, exampleK0b, exampleK0e] =
     [(exampleK0a, exampleK0b), (exampleK0a, exampleK0e), (exampleK0b, exampleK0e)]"
    by (subst d) (simp_all add: example_range example_facts)
qed

lemma example_processSE_ac:
  "processSE defaultConfig exampleCollision exampleTracks [exampleK0a, exampleK0c] = []"
  "processSE pairsConfig exampleCollision exampleTracks [exampleK0a, exampleK0c] = []"
proof -
  note c = processSE_characterised [of "[exampleK0a, exampleK0c]" defaultConfig
      exampleCollision exampleTracks, unfolded example_accepted_ac]
  show "processSE defaultConfig exampleCollision exampleTracks [exampleK0a, exampleK0c] = []"
    by (subst c) (simp_all add: example_range example_facts)
  note d = processSE_characterised [of "[exampleK0a, exampleK0c]" pairsConfig
      exampleCollision exampleTracks, unfolded example_accepted_ac]
  show "processSE pairsConfig exampleCollision exampleTracks [exampleK0a, exampleK0c] = []"
    by (subst d) (simp_all add: example_range example_facts)
qed

lemma example_processSE_af:
  "processSE angSepConfig exampleCollision exampleTracks [exampleK0a, exampleK0f] = []"
proof -
  note c = processSE_characterised [of "[exampleK0a, exampleK0f]" angSepConfig
      exampleCollision exampleTracks, unfolded example_accepted_af]
  show ?thesis
    by (subst c) (simp_all add: example_range example_facts)
qed

text \<open>
  The pairs handed on at three selected candidates without a common track: with the
  default configuration the accepted pair of the first two is handed on once from the event
  of these two and not from the event of all three; with \<^verbatim>\<open>selectTWOKsOnly\<close> off it is
  handed on once from the event of all three, and its reverse never.
\<close>

theorem same_event_pairs_produced_witness:
  "distinct (map globalIndex [exampleK0a, exampleK0b, exampleK0e]) \<and>
   sePairAccepted defaultConfig exampleCollision exampleTracks (exampleK0a, exampleK0b) \<and>
   globalIndex exampleK0a < globalIndex exampleK0b \<and>
   count_list (processSE defaultConfig exampleCollision exampleTracks [exampleK0a, exampleK0b])
     (exampleK0a, exampleK0b) = 1 \<and>
   count_list (processSE defaultConfig exampleCollision exampleTracks [exampleK0a, exampleK0b])
     (exampleK0b, exampleK0a) = 0 \<and>
   count_list (processSE defaultConfig exampleCollision exampleTracks
     [exampleK0a, exampleK0b, exampleK0e]) (exampleK0a, exampleK0b) = 0 \<and>
   count_list (processSE pairsConfig exampleCollision exampleTracks
     [exampleK0a, exampleK0b, exampleK0e]) (exampleK0a, exampleK0b) = 1 \<and>
   count_list (processSE pairsConfig exampleCollision exampleTracks
     [exampleK0a, exampleK0b, exampleK0e]) (exampleK0b, exampleK0a) = 0"
proof -
  note t1 = same_event_pairs_produced [of defaultConfig exampleCollision exampleTracks
      "[exampleK0a, exampleK0b]", THEN conjunct2, rule_format]
  note t2 = same_event_pairs_produced [of defaultConfig exampleCollision exampleTracks
      "[exampleK0a, exampleK0b, exampleK0e]", THEN conjunct2, rule_format]
  note t3 = same_event_pairs_produced [of pairsConfig exampleCollision exampleTracks
      "[exampleK0a, exampleK0b, exampleK0e]", THEN conjunct2, rule_format]
  have a: "sePairAccepted defaultConfig exampleCollision exampleTracks (exampleK0a, exampleK0b)"
    "\<not> sePairAccepted defaultConfig exampleCollision exampleTracks (exampleK0b, exampleK0a)"
    "sePairAccepted pairsConfig exampleCollision exampleTracks (exampleK0a, exampleK0b)"
    "\<not> sePairAccepted pairsConfig exampleCollision exampleTracks (exampleK0b, exampleK0a)"
    by (simp_all add: sePairAccepted_def example_facts)
  have c1: "count_list (processSE defaultConfig exampleCollision exampleTracks
      [exampleK0a, exampleK0b]) (exampleK0a, exampleK0b) = 1"
    by (subst t1) (simp_all add: example_range a example_facts)
  have c2: "count_list (processSE defaultConfig exampleCollision exampleTracks
      [exampleK0a, exampleK0b]) (exampleK0b, exampleK0a) = 0"
    by (subst t1) (simp_all add: example_range a example_facts)
  have c3: "count_list (processSE defaultConfig exampleCollision exampleTracks
      [exampleK0a, exampleK0b, exampleK0e]) (exampleK0a, exampleK0b) = 0"
    by (subst t2) (simp_all add: example_range a example_facts)
  have c4: "count_list (processSE pairsConfig exampleCollision exampleTracks
      [exampleK0a, exampleK0b, exampleK0e]) (exampleK0a, exampleK0b) = 1"
    by (subst t3) (simp_all add: example_range a example_facts)
  have c5: "count_list (processSE pairsConfig exampleCollision exampleTracks
      [exampleK0a, exampleK0b, exampleK0e]) (exampleK0b, exampleK0a) = 0"
    by (subst t3) (simp_all add: example_range a example_facts)
  show ?thesis
    using c1 c2 c3 c4 c5 a by (simp add: example_fields example_more_fields)
qed

text \<open>
  Claim C2, as stated, fails: two distinct selected candidates form a pair that is not
  produced when they have one positive daughter (with \<^verbatim>\<open>selectTWOKsOnly\<close> on or off),
  when the event has a third selected candidate (default configuration), and when the
  angular-separation cut rejects the pair.
\<close>

theorem unordered_pair_counterexample:
  "candidateSelected defaultConfig exampleCollision exampleTracks exampleK0a \<and>
   candidateSelected defaultConfig exampleCollision exampleTracks exampleK0c \<and>
   globalIndex exampleK0a \<noteq> globalIndex exampleK0c \<and>
   processSE defaultConfig exampleCollision exampleTracks [exampleK0a, exampleK0c] = [] \<and>
   processSE pairsConfig exampleCollision exampleTracks [exampleK0a, exampleK0c] = [] \<and>
   candidateSelected defaultConfig exampleCollision exampleTracks exampleK0b \<and>
   candidateSelected defaultConfig exampleCollision exampleTracks exampleK0e \<and>
   globalIndex exampleK0a \<noteq> globalIndex exampleK0b \<and>
   processSE defaultConfig exampleCollision exampleTracks
     [exampleK0a, exampleK0b, exampleK0e] = [] \<and>
   candidateSelected angSepConfig exampleCollision exampleTracks exampleK0a \<and>
   candidateSelected angSepConfig exampleCollision exampleTracks exampleK0f \<and>
   globalIndex exampleK0a \<noteq> globalIndex exampleK0f \<and>
   processSE angSepConfig exampleCollision exampleTracks [exampleK0a, exampleK0f] = []"
  by (simp add: example_processSE_ac example_processSE_abe example_processSE_af example_facts)

section \<open>The same-event entries at concrete inputs\<close>

lemma E_exampleUp: "E exampleUp = 5" "E exampleDown = 5"
  by (simp_all add: E_def E2_def P2_def M2_def exampleUp_def exampleDown_def
      sqrt_square_numeral [of 5])

lemma plus4_exampleUp: "plus4 exampleUp exampleDown = \<lparr>Px = 0, Py = 0, Pz = 0, fM = 10\<rparr>"
  unfolding plus4_def E_exampleUp
  by (simp add: SetPxPyPzE_def exampleUp_def exampleDown_def sqrt_square_numeral [of 10])

lemma E_rest: "E \<lparr>Px = 0, Py = 0, Pz = 0, fM = 10\<rparr> = 10"
  by (simp add: E_def E2_def P2_def M2_def sqrt_square_numeral [of 10])

lemma Rapidity_rest: "Rapidity \<lparr>Px = 0, Py = 0, Pz = 0, fM = 10\<rparr> = 0"
  by (simp add: Rapidity_def E_rest)

lemma boost_rest: "SetComponents (BoostToCM \<lparr>Px = 0, Py = 0, Pz = 0, fM = 10\<rparr>) = BoostIdentity"
  by (simp add: SetComponents_def BoostToCM_def E_rest BoostIdentity_def)

lemma boost4_identity_up: "boost4 BoostIdentity exampleUp = exampleUp"
  unfolding boost4_def E_exampleUp
  by (simp add: boostXYZT_def BoostIdentity_def SetPxPyPzE_def exampleUp_def
      sqrt_square_numeral [of 4])

lemma cos_exampleUp: "cosThetaStarBeam exampleUp = 1"
  by (simp add: cosThetaStarBeam_def Dot_def Mag2_def Vect_def exampleUp_def
      sqrt_square_numeral [of 3])

lemma BeamMomentum_pos: "0 < BeamMomentum"
  unfolding BeamMomentum_def by (rule real_sqrt_gt_zero) simp

lemma Unit_beams:
  "Unit (boostVect BoostIdentity Beam1) = \<lparr>fX = 0, fY = 0, fZ = -1\<rparr>"
  "Unit (boostVect BoostIdentity Beam2) = \<lparr>fX = 0, fY = 0, fZ = 1\<rparr>"
  using BeamMomentum_pos
  by (simp_all add: Unit_def boostVect_def boostXYZT_def BoostIdentity_def Beam1_def Beam2_def
      Mag2_def real_sqrt_abs2)

lemma Unit_zero: "Unit \<lparr>fX = 0, fY = 0, fZ = 0\<rparr> = \<lparr>fX = 0, fY = 0, fZ = 0\<rparr>"
  by (simp add: Unit_def Mag2_def)

lemma angle_phi_rest: "angle_phi \<lparr>Px = 0, Py = 0, Pz = 0, fM = 10\<rparr> exampleUp = 0"
proof -
  have c: "Cross \<lparr>fX = 0, fY = 0, fZ = -1\<rparr> \<lparr>fX = 0, fY = 0, fZ = 1\<rparr> = \<lparr>fX = 0, fY = 0, fZ = 0\<rparr>"
    by (simp add: Cross_def)
  have z: "Vect \<lparr>Px = 0, Py = 0, Pz = 0, fM = 10\<rparr> = \<lparr>fX = 0, fY = 0, fZ = 0\<rparr>"
    by (simp add: Vect_def)
  have x: "Cross \<lparr>fX = 0, fY = 0, fZ = 0\<rparr> \<lparr>fX = 0, fY = 0, fZ = 0\<rparr> = \<lparr>fX = 0, fY = 0, fZ = 0\<rparr>"
    by (simp add: Cross_def)
  have d: "Dot \<lparr>fX = 0, fY = 0, fZ = 0\<rparr> v = 0" for v
    by (simp add: Dot_def)
  have "angle_phi_raw \<lparr>Px = 0, Py = 0, Pz = 0, fM = 10\<rparr> exampleUp = 0"
    unfolding angle_phi_raw_def Let_def boost_rest Unit_beams c z Unit_zero x d
    by (simp add: ATan2_def)
  then show ?thesis by (simp add: angle_phi_def)
qed

lemma primaryCos_rest:
  "primaryCosThetaStar defaultConfig g \<lparr>Px = 0, Py = 0, Pz = 0, fM = 10\<rparr> exampleUp = 1"
  unfolding primaryCosThetaStar_def Let_def boost_rest boost4_identity_up cos_exampleUp
  by (simp add: defaultConfig_def)

lemma Rapidity_Pz_zero: "Pz v = 0 \<Longrightarrow> E v \<noteq> 0 \<Longrightarrow> Rapidity v = 0"
  by (simp add: Rapidity_def Let_def)

lemma example_pair_mother:
  "Pz (motherOf defaultConfig (exampleK0a, exampleK0b)) = 0"
  "E (motherOf defaultConfig (exampleK0a, exampleK0b)) \<noteq> 0"
proof -
  define d where "d = daughterOf defaultConfig exampleK0a"
  define s where "s = E d"
  have b: "daughterOf defaultConfig exampleK0b = d"
    by (simp add: d_def daughterOf_def exampleK0a_def exampleK0b_def exampleV0_def)
  have p: "Px d = 1" "Py d = 0" "Pz d = 0"
    by (simp_all add: d_def daughterOf_def exampleK0a_def exampleV0_def)
  have f: "0 \<le> fM d"
    by (simp add: d_def daughterOf_def defaultConfig_def)
  have "P2 d + M2 d \<ge> 1"
    using f by (simp add: P2_def M2_def p)
  then have "E2 d \<ge> 1" by (simp add: E2_max)
  then have s1: "1 \<le> s" by (simp add: s_def E_def)
  then have s2: "2 \<le> s + s" by simp
  have "2 * 2 \<le> (s + s) * (s + s)"
    by (rule mult_mono [OF s2 s2]) (use s2 in simp_all)
  then have mm: "0 \<le> (s + s) * (s + s) - 2 * 2" by linarith
  have m: "motherOf defaultConfig (exampleK0a, exampleK0b) =
      \<lparr>Px = 2, Py = 0, Pz = 0, fM = sqrt ((s + s) * (s + s) - 2 * 2)\<rparr>"
    using mm by (simp add: motherOf_def b d_def [symmetric] plus4_def s_def [symmetric] p
        SetPxPyPzE_def)
  show "Pz (motherOf defaultConfig (exampleK0a, exampleK0b)) = 0"
    by (simp add: m)
  have "P2 (motherOf defaultConfig (exampleK0a, exampleK0b)) +
      M2 (motherOf defaultConfig (exampleK0a, exampleK0b)) \<ge> 4"
    using mm unfolding m by (simp add: P2_def M2_def)
  then have "E2 (motherOf defaultConfig (exampleK0a, exampleK0b)) \<ge> 4"
    by (simp add: E2_max)
  then have "E2 (motherOf defaultConfig (exampleK0a, exampleK0b)) \<noteq> 0" by linarith
  then show "E (motherOf defaultConfig (exampleK0a, exampleK0b)) \<noteq> 0"
    by (simp add: E_def)
qed

lemma Rapidity_example_pair:
  "Rapidity (motherOf defaultConfig (exampleK0a, exampleK0b)) = 0"
  by (rule Rapidity_Pz_zero) (rule example_pair_mother)+

text \<open>
  The entries at the default configuration (beam axis): a mother at rest of two daughters
  along the beam axis records the entry with cosine 1 and angle 0; a mother of rapidity
  \<open>- ln 3\<close> records none; the event of two selected candidates records the entry of its
  pair, and the event of three selected candidates hands on no pair and records nothing.
\<close>

theorem primary_entry_iff_rapidity_witness:
  "activateTHnSparseCosThStarBeam defaultConfig \<and>
   filter (\<lambda>f. hist f = h3glueInvMassDS)
     (fillInvMass defaultConfig exampleRn (1 / 2, 1 / 2) (plus4 exampleUp exampleDown) 50
        exampleUp exampleDown False) =
     [Fill h3glueInvMassDS 50 0 10 1 0] \<and>
   filter (\<lambda>f. hist f = h3glueInvMassDS)
     (fillInvMass defaultConfig exampleRn (1 / 2, 1 / 2) exampleBackward 50
        exampleBackward exampleBackward False) = [] \<and>
   filter (\<lambda>f. hist f = h3glueInvMassDS)
     (processSEfills defaultConfig exampleRn exampleG exampleCollision exampleTracks
        [exampleK0a, exampleK0b]) =
     [Fill h3glueInvMassDS 50
        (Pt (motherOf defaultConfig (exampleK0a, exampleK0b)))
        (M (motherOf defaultConfig (exampleK0a, exampleK0b)))
        (primaryCosThetaStar defaultConfig (exampleG 0)
           (motherOf defaultConfig (exampleK0a, exampleK0b))
           (daughterOf defaultConfig exampleK0a))
        (angle_phi (motherOf defaultConfig (exampleK0a, exampleK0b))
           (daughterOf defaultConfig exampleK0a))] \<and>
   distinct (map globalIndex [exampleK0a, exampleK0b, exampleK0e]) \<and>
   processSE defaultConfig exampleCollision exampleTracks
     [exampleK0a, exampleK0b, exampleK0e] = [] \<and>
   filter (\<lambda>f. hist f = h3glueInvMassDS)
     (processSEfills defaultConfig exampleRn exampleG exampleCollision exampleTracks
        [exampleK0a, exampleK0b, exampleK0e]) = []"
proof -
  have b: "activateTHnSparseCosThStarBeam defaultConfig"
    by (simp add: defaultConfig_def)
  then have a: "activateTHnSparseCosThStarHelicity defaultConfig \<or>
      activateTHnSparseCosThStarProduction defaultConfig \<or>
      activateTHnSparseCosThStarBeam defaultConfig \<or>
      activateTHnSparseCosThStarRandom defaultConfig"
    by simp
  note t = primary_entry_iff_rapidity [OF a]
  have m: "multiplicityOf defaultConfig exampleCollision = 50"
    by (simp add: multiplicityOf_def defaultConfig_def exampleCollision_def)
  have r: "\<not> \<bar>Rapidity exampleBackward\<bar> < 0.5"
  proof -
    have "E exampleBackward = 5" by (rule E_exampleBackward)
    then have "Rapidity exampleBackward = - (ln 9 / 2)"
      using ln_div [of 1 9] by (simp add: Rapidity_def exampleBackward_def)
    with ln_nine show ?thesis by simp
  qed
  have 1: "filter (\<lambda>f. hist f = h3glueInvMassDS)
     (fillInvMass defaultConfig exampleRn (1 / 2, 1 / 2) (plus4 exampleUp exampleDown) 50
        exampleUp exampleDown False) = [Fill h3glueInvMassDS 50 0 10 1 0]"
    unfolding t [THEN conjunct1] plus4_exampleUp
    by (simp add: Rapidity_rest primaryCos_rest angle_phi_rest Pt_def M_def)
  have 2: "filter (\<lambda>f. hist f = h3glueInvMassDS)
     (fillInvMass defaultConfig exampleRn (1 / 2, 1 / 2) exampleBackward 50
        exampleBackward exampleBackward False) = []"
    unfolding t [THEN conjunct1] using r by simp
  have 3: "filter (\<lambda>f. hist f = h3glueInvMassDS)
     (processSEfills defaultConfig exampleRn exampleG exampleCollision exampleTracks
        [exampleK0a, exampleK0b]) =
     [Fill h3glueInvMassDS 50
        (Pt (motherOf defaultConfig (exampleK0a, exampleK0b)))
        (M (motherOf defaultConfig (exampleK0a, exampleK0b)))
        (primaryCosThetaStar defaultConfig (exampleG 0)
           (motherOf defaultConfig (exampleK0a, exampleK0b))
           (daughterOf defaultConfig exampleK0a))
        (angle_phi (motherOf defaultConfig (exampleK0a, exampleK0b))
           (daughterOf defaultConfig exampleK0a))]"
    unfolding t [THEN conjunct2, THEN conjunct1] example_processSE_ab
    by (simp add: enumerate_simps Rapidity_example_pair m)
  have 4: "processSE defaultConfig exampleCollision exampleTracks
      [exampleK0a, exampleK0b, exampleK0e] = []"
    using t [THEN conjunct2, THEN conjunct2, rule_format,
        of "[exampleK0a, exampleK0b, exampleK0e]" exampleCollision exampleTracks]
      example_range
    by (simp add: example_facts)
  have 5: "filter (\<lambda>f. hist f = h3glueInvMassDS)
     (processSEfills defaultConfig exampleRn exampleG exampleCollision exampleTracks
        [exampleK0a, exampleK0b, exampleK0e]) = []"
    unfolding t [THEN conjunct2, THEN conjunct1] 4 by simp
  from b 1 2 3 4 5 example_range show ?thesis by simp
qed

text \<open>
  Claim C7, as stated, fails: with the default configuration an accepted pair of absolute
  rapidity below 0.5 records nothing when the event has a third selected candidate.
\<close>

theorem accepted_pair_unrecorded_counterexample:
  "activateTHnSparseCosThStarBeam defaultConfig \<and>
   sePairAccepted defaultConfig exampleCollision exampleTracks (exampleK0a, exampleK0b) \<and>
   \<bar>Rapidity (motherOf defaultConfig (exampleK0a, exampleK0b))\<bar> < 0.5 \<and>
   processSEfills defaultConfig exampleRn exampleG exampleCollision exampleTracks
     [exampleK0a, exampleK0b, exampleK0e] = []"
proof -
  have b: "activateTHnSparseCosThStarBeam defaultConfig"
    by (simp add: defaultConfig_def)
  have a: "sePairAccepted defaultConfig exampleCollision exampleTracks (exampleK0a, exampleK0b)"
    by (simp add: sePairAccepted_def example_facts)
  from a b show ?thesis
    by (simp add: processSEfills_def example_processSE_abe Rapidity_example_pair)
qed

end
